theory Spec2Isabelle
  imports Main "HOL-Library.AList" "HOL-Library.Sublist"
begin

section \<open>Python values, exceptions and strings\<close>

text \<open>
  The data that the registry client, the analyzers and the other collaborators hand to
  \<^verbatim>\<open>main.py\<close> is JSON-like. A dictionary is an association list in insertion order
  (as Python dictionaries iterate), read with \<open>map_of\<close> and written with
  \<open>AList.update\<close>, which keeps the place of an existing key and appends a new one.
  Values are compared and copied by value.
\<close>

datatype pyval =
    PNone
  | PBool bool
  | PInt int
  | PStr string
  | PList "pyval list"
  | PDict "(string \<times> pyval) list"

text \<open>
  An exception carries the text that \<^verbatim>\<open>str(e)\<close> gives. \<open>Interrupt\<close> stands for the
  other exceptions that, like \<^verbatim>\<open>SystemExit\<close>, are not subclasses of
  \<^verbatim>\<open>Exception\<close> (KeyboardInterrupt, GeneratorExit).
\<close>

datatype exn =
    Exception string
  | AssertionError string
  | KeyError string
  | TypeError string
  | AttributeError string
  | NameError string
  | UnboundLocalError string
  | ValueError string
  | IndexError string
  | SystemExit nat
  | Interrupt string

subsection \<open>Formatting\<close>

definition digit_char :: "nat \<Rightarrow> char" where
  "digit_char d = ''0123456789'' ! d"

fun string_of_nat :: "nat \<Rightarrow> string" where
  "string_of_nat n =
     (if 10 \<le> n then string_of_nat (n div 10) else []) @ [digit_char (n mod 10)]"

declare string_of_nat.simps [simp del]

definition string_of_int :: "int \<Rightarrow> string" where
  "string_of_int i =
     (if 0 \<le> i then string_of_nat (nat i) else CHR ''-'' # string_of_nat (nat (- i)))"

definition hex2 :: "nat \<Rightarrow> string" where
  "hex2 n = [''0123456789abcdef'' ! ((n div 16) mod 16), ''0123456789abcdef'' ! (n mod 16)]"

text \<open>\<^verbatim>\<open>repr\<close> of a string whose characters are ASCII.\<close>

definition repr_char :: "char \<Rightarrow> char \<Rightarrow> string" where
  "repr_char q c =
     (if c = q \<or> c = CHR 0x5C then [CHR 0x5C, c]
      else if c = CHR 0x09 then [CHR 0x5C, CHR ''t'']
      else if c = CHR 0x0A then [CHR 0x5C, CHR ''n'']
      else if c = CHR 0x0D then [CHR 0x5C, CHR ''r'']
      else if of_char c < (32::nat) \<or> of_char c = (127::nat)
        then [CHR 0x5C, CHR ''x''] @ hex2 (of_char c)
      else [c])"

definition repr_str :: "string \<Rightarrow> string" where
  "repr_str s =
     (let q = (if CHR 0x27 \<in> set s \<and> CHR 0x22 \<notin> set s then CHR 0x22 else CHR 0x27)
      in [q] @ concat (map (repr_char q) s) @ [q])"

fun join :: "string \<Rightarrow> string list \<Rightarrow> string" where
  "join sep [] = []"
| "join sep [x] = x"
| "join sep (x # y # ys) = x @ sep @ join sep (y # ys)"

fun py_repr :: "pyval \<Rightarrow> string" where
  "py_repr PNone = ''None''"
| "py_repr (PBool b) = (if b then ''True'' else ''False'')"
| "py_repr (PInt i) = string_of_int i"
| "py_repr (PStr s) = repr_str s"
| "py_repr (PList xs) = ''['' @ join '', '' (map py_repr xs) @ '']''"
| "py_repr (PDict kvs) =
     ''{'' @ join '', '' (map (\<lambda>kv. repr_str (fst kv) @ '': '' @ py_repr (snd kv)) kvs) @ ''}''"

text \<open>\<^verbatim>\<open>str(v)\<close>, which is what \<^verbatim>\<open>'%s' % v\<close> inserts.\<close>

fun py_str :: "pyval \<Rightarrow> string" where
  "py_str (PStr s) = s"
| "py_str v = py_repr v"

text \<open>
  The messages of the interpreter's own exceptions name the type of the value, mostly
  between single quotes. They are spelled as CPython 3.10 spells them.
\<close>

fun type_name :: "pyval \<Rightarrow> string" where
  "type_name PNone = ''NoneType''"
| "type_name (PBool b) = ''bool''"
| "type_name (PInt i) = ''int''"
| "type_name (PStr s) = ''str''"
| "type_name (PList xs) = ''list''"
| "type_name (PDict kvs) = ''dict''"

definition quoted :: "string \<Rightarrow> string" where
  "quoted s = CHR 0x27 # s @ [CHR 0x27]"

text \<open>\<^verbatim>\<open>'%d' % v\<close>: integers and booleans only.\<close>

fun fmt_d :: "pyval \<Rightarrow> exn + string" where
  "fmt_d (PInt i) = Inr (string_of_int i)"
| "fmt_d (PBool b) = Inr (if b then ''1'' else ''0'')"
| "fmt_d v = Inl (TypeError (''%d format: a real number is required, not '' @ type_name v))"

fun str_exn :: "exn \<Rightarrow> string" where
  "str_exn (Exception m) = m"
| "str_exn (AssertionError m) = m"
| "str_exn (KeyError m) = m"
| "str_exn (TypeError m) = m"
| "str_exn (AttributeError m) = m"
| "str_exn (NameError m) = m"
| "str_exn (UnboundLocalError m) = m"
| "str_exn (ValueError m) = m"
| "str_exn (IndexError m) = m"
| "str_exn (SystemExit n) = string_of_nat n"
| "str_exn (Interrupt m) = m"

fun is_Exception :: "exn \<Rightarrow> bool" where
  "is_Exception (Interrupt m) = False"
| "is_Exception (SystemExit n) = False"
| "is_Exception e = True"

fun is_KeyError :: "exn \<Rightarrow> bool" where
  "is_KeyError (KeyError m) = True"
| "is_KeyError e = False"

subsection \<open>Operations on values\<close>

fun truthy :: "pyval \<Rightarrow> bool" where
  "truthy PNone = False"
| "truthy (PBool b) = b"
| "truthy (PInt i) = (i \<noteq> 0)"
| "truthy (PStr s) = (s \<noteq> [])"
| "truthy (PList xs) = (xs \<noteq> [])"
| "truthy (PDict kvs) = (kvs \<noteq> [])"

text \<open>\<^verbatim>\<open>len(v)\<close>; a dictionary counts its distinct keys.\<close>

fun py_len :: "pyval \<Rightarrow> exn + nat" where
  "py_len (PStr s) = Inr (length s)"
| "py_len (PList xs) = Inr (length xs)"
| "py_len (PDict kvs) = Inr (length (remdups (map fst kvs)))"
| "py_len v = Inl (TypeError (''object of type '' @ quoted (type_name v) @ '' has no len()''))"

text \<open>
  \<^verbatim>\<open>v[k]\<close>. Dictionaries have string keys, so any other hashable key is missing;
  lists and strings are indexed by integers, negative ones counting from the end.
\<close>

fun as_index :: "pyval \<Rightarrow> int option" where
  "as_index (PInt i) = Some i"
| "as_index (PBool b) = Some (if b then 1 else 0)"
| "as_index v = None"

definition index_list :: "'a list \<Rightarrow> int \<Rightarrow> exn + 'a" where
  "index_list xs i =
     (if 0 \<le> i \<and> i < int (length xs) then Inr (xs ! nat i)
      else if i < 0 \<and> - i \<le> int (length xs) then Inr (xs ! nat (int (length xs) + i))
      else Inl (IndexError ''list index out of range''))"

definition subscript :: "pyval \<Rightarrow> pyval \<Rightarrow> exn + pyval" where
  "subscript v k =
     (case v of
        PDict kvs \<Rightarrow>
          (case k of
             PStr key \<Rightarrow>
               (case map_of kvs key of
                  None \<Rightarrow> Inl (KeyError (repr_str key))
                | Some x \<Rightarrow> Inr x)
           | PList xs \<Rightarrow> Inl (TypeError (''unhashable type: '' @ quoted (type_name k)))
           | PDict xs \<Rightarrow> Inl (TypeError (''unhashable type: '' @ quoted (type_name k)))
           | _ \<Rightarrow> Inl (KeyError (py_repr k)))
      | PList xs \<Rightarrow>
          (case as_index k of
             None \<Rightarrow>
               Inl (TypeError (''list indices must be integers or slices, not '' @ type_name k))
           | Some i \<Rightarrow> index_list xs i)
      | PStr cs \<Rightarrow>
          (case as_index k of
             None \<Rightarrow> Inl (TypeError ''string indices must be integers'')
           | Some i \<Rightarrow>
               (case index_list cs i of
                  Inl e \<Rightarrow> Inl (IndexError ''string index out of range'')
                | Inr c \<Rightarrow> Inr (PStr [c])))
      | _ \<Rightarrow> Inl (TypeError (quoted (type_name v) @ '' object is not subscriptable'')))"

text \<open>
  The value of an integer or boolean in arithmetic and in a comparison; \<^verbatim>\<open>v > n\<close> and
  \<^verbatim>\<open>v < n\<close> for an integer literal \<open>n\<close>.
\<close>

fun as_int :: "pyval \<Rightarrow> int option" where
  "as_int (PInt i) = Some i"
| "as_int (PBool b) = Some (if b then 1 else 0)"
| "as_int v = None"

definition not_comparable :: "string \<Rightarrow> pyval \<Rightarrow> exn" where
  "not_comparable operator v =
     TypeError (quoted operator @ '' not supported between instances of '' @
                quoted (type_name v) @ '' and '' @ quoted ''int'')"

definition py_gt :: "pyval \<Rightarrow> int \<Rightarrow> exn + bool" where
  "py_gt v n = (case as_int v of None \<Rightarrow> Inl (not_comparable ''>'' v) | Some i \<Rightarrow> Inr (i > n))"

definition py_lt :: "pyval \<Rightarrow> int \<Rightarrow> exn + bool" where
  "py_lt v n = (case as_int v of None \<Rightarrow> Inl (not_comparable ''<'' v) | Some i \<Rightarrow> Inr (i < n))"

section \<open>Threat model and alert registry\<close>

type_synonym threat_model = "string \<rightharpoonup> string"
type_synonym risks = "(string \<times> string list) list"
type_synonym report = "(string \<times> pyval) list"

text \<open>
  \<^verbatim>\<open>alert_user\<close>: the dictionary \<open>risks\<close> is changed in place and returned; here the
  changed dictionary is the result.
\<close>

definition alert_user :: "string \<Rightarrow> threat_model \<Rightarrow> string \<Rightarrow> risks \<Rightarrow> risks" where
  "alert_user alert_type threat_model reason risks =
     (case threat_model alert_type of
        None \<Rightarrow> risks
      | Some risk_cat \<Rightarrow>
          (let risks1 = (if map_of risks risk_cat = None
                         then AList.update risk_cat [] risks else risks)
           in AList.map_entry risk_cat (\<lambda>msgs. msgs @ [alert_type @ '': '' @ reason]) risks1))"

text \<open>The messages recorded under a category; none when the category has no entry.\<close>

definition messages :: "risks \<Rightarrow> string \<Rightarrow> string list" where
  "messages risks cat = (case map_of risks cat of None \<Rightarrow> [] | Some msgs \<Rightarrow> msgs)"

section \<open>Statements, exceptions and the stage wrapper\<close>

text \<open>
  A running function reads and changes the text printed so far, the files written so far
  and the two dictionaries \<^verbatim>\<open>risks\<close> and \<^verbatim>\<open>report\<close> that are handed from
  stage to stage. \<open>stdout\<close> has one entry for each call of \<^verbatim>\<open>print\<close>.
  \<open>var_filepath\<close> is the module's variable \<^verbatim>\<open>filepath\<close>, which has no value
  until an assignment gives it one.
\<close>

record st =
  stdout :: "string list"
  files :: "(string \<times> report) list"
  cur_risks :: risks
  cur_report :: report
  var_filepath :: "pyval option"

datatype 'a result = Ok 'a | Raise exn

type_synonym 'a prog = "st \<Rightarrow> 'a result \<times> st"

definition ret :: "'a \<Rightarrow> 'a prog" where
  "ret x s = (Ok x, s)"

definition py_raise :: "exn \<Rightarrow> 'a prog" where
  "py_raise e s = (Raise e, s)"

definition bnd :: "'a prog \<Rightarrow> ('a \<Rightarrow> 'b prog) \<Rightarrow> 'b prog" where
  "bnd m f s = (case m s of (Ok x, s1) \<Rightarrow> f x s1 | (Raise e, s1) \<Rightarrow> (Raise e, s1))"

text \<open>The outcome of an operation or of a collaborator's call, as a statement.\<close>

definition lift :: "exn + 'a \<Rightarrow> 'a prog" where
  "lift r = (case r of Inl e \<Rightarrow> py_raise e | Inr x \<Rightarrow> ret x)"

definition py_print :: "string \<Rightarrow> unit prog" where
  "py_print text s = (Ok (), s\<lparr>stdout := stdout s @ [text]\<rparr>)"

definition py_assert :: "bool \<Rightarrow> string \<Rightarrow> unit prog" where
  "py_assert c msg = (if c then ret () else py_raise (AssertionError msg))"

text \<open>\<^verbatim>\<open>risks = alert_user(alert_type, threat_model, reason, risks)\<close>\<close>

definition alert :: "string \<Rightarrow> threat_model \<Rightarrow> string \<Rightarrow> unit prog" where
  "alert alert_type threat_model reason s =
     (Ok (), s\<lparr>cur_risks := alert_user alert_type threat_model reason (cur_risks s)\<rparr>)"

text \<open>\<^verbatim>\<open>report[section] = v\<close>\<close>

definition set_report :: "string \<Rightarrow> pyval \<Rightarrow> unit prog" where
  "set_report section v s = (Ok (), s\<lparr>cur_report := AList.update section v (cur_report s)\<rparr>)"

text \<open>\<^verbatim>\<open>try: body / except <caught> as e: handler\<close>\<close>

definition try_except :: "'a prog \<Rightarrow> (exn \<Rightarrow> bool) \<Rightarrow> (exn \<Rightarrow> 'a prog) \<Rightarrow> 'a prog" where
  "try_except body caught handler s =
     (case body s of
        (Ok x, s1) \<Rightarrow> (Ok x, s1)
      | (Raise e, s1) \<Rightarrow> if caught e then handler e s1 else (Raise e, s1))"

text \<open>
  The frame of every stage function:
  \<^verbatim>\<open>try: body / except Exception as e: print("FAILED [%s]" % (str(e))) / finally: return risks, report\<close>.
  The \<^verbatim>\<open>return\<close> in the \<^verbatim>\<open>finally\<close> clause also ends an exception that the
  handler did not catch.
\<close>

definition returning :: "(risks \<times> report) prog" where
  "returning s = (Ok (cur_risks s, cur_report s), s)"

definition stage :: "unit prog \<Rightarrow> (risks \<times> report) prog" where
  "stage body s =
     (case try_except body is_Exception (\<lambda>e. py_print (''FAILED ['' @ str_exn e @ '']'')) s of
        (Ok u, s1) \<Rightarrow> returning s1
      | (Raise e, s1) \<Rightarrow> returning s1)"

section \<open>Collaborators\<close>

text \<open>
  The modules \<^verbatim>\<open>util\<close>, \<^verbatim>\<open>pm_util\<close>, \<^verbatim>\<open>static_util\<close>, \<^verbatim>\<open>parse_apis\<close> and
  \<^verbatim>\<open>osv\<close> are not part of \<^verbatim>\<open>main.py\<close>. Each of their functions is a parameter:
  given its arguments it returns a value or raises. \<^verbatim>\<open>main.py\<close> reads the globals
  \<^verbatim>\<open>pm_proxy\<close> and \<^verbatim>\<open>threat_model\<close>; here they are arguments.
\<close>

datatype PackageManagerEnum = pypi | npmjs

datatype LanguageEnum = python | javascript

record pm_proxy =
  get_metadata :: "pyval \<Rightarrow> pyval \<Rightarrow> exn + pyval"
  get_version :: "pyval \<Rightarrow> pyval \<Rightarrow> pyval \<Rightarrow> exn + pyval"
  get_release_history :: "pyval \<Rightarrow> pyval \<Rightarrow> exn + pyval"
  get_author :: "pyval \<Rightarrow> pyval \<Rightarrow> pyval \<Rightarrow> pyval \<Rightarrow> exn + pyval"
  get_description :: "pyval \<Rightarrow> pyval \<Rightarrow> pyval \<Rightarrow> exn + pyval"
  get_homepage :: "pyval \<Rightarrow> pyval \<Rightarrow> pyval \<Rightarrow> exn + pyval"
  get_repo :: "pyval \<Rightarrow> pyval \<Rightarrow> pyval \<Rightarrow> pyval \<Rightarrow> exn + pyval"
  get_download_url :: "pyval \<Rightarrow> pyval \<Rightarrow> pyval \<Rightarrow> exn + pyval"
  get_downloads :: "pyval \<Rightarrow> exn + pyval"

text \<open>The result of \<^verbatim>\<open>__parse_url\<close> is read for its \<^verbatim>\<open>scheme\<close> only.\<close>

datatype parsed_url = ParsedUrl (scheme: string)

text \<open>\<^verbatim>\<open>static.astgen(inpath, outfile, configpath, pkg_name, pkg_version)\<close>\<close>

datatype static_proxy =
  StaticProxy (astgen: "pyval \<Rightarrow> pyval \<Rightarrow> string \<Rightarrow> pyval \<Rightarrow> pyval \<Rightarrow> exn + unit")

text \<open>
  \<open>fmt_kb size\<close> is the text of \<^verbatim>\<open>"%0.2f" % (float(size)/1024)\<close>: floating-point
  numbers are not modelled. \<open>path_exists\<close> is \<^verbatim>\<open>os.path.exists\<close>.
\<close>

record world =
  read_from_csv :: "string \<Rightarrow> exn + string list list"
  get_pm_proxy :: "PackageManagerEnum \<Rightarrow> exn + pm_proxy option"
  datetime_delta :: "pyval \<Rightarrow> exn + pyval"
  check_email_address :: "pyval \<Rightarrow> exn + pyval \<times> pyval"
  parse_url :: "pyval \<Rightarrow> exn + parsed_url"
  check_site_exist :: "pyval \<Rightarrow> exn + pyval \<times> pyval"
  check_domain_popular :: "pyval \<Rightarrow> exn + pyval"
  get_pkgver_vulns :: "string \<Rightarrow> pyval \<Rightarrow> pyval \<Rightarrow> exn + pyval"
  human_format :: "pyval \<Rightarrow> exn + pyval"
  get_static_proxy_for_language :: "LanguageEnum \<Rightarrow> exn + static_proxy"
  path_exists :: "pyval \<Rightarrow> exn + bool"
  parse_api_usage :: "string \<Rightarrow> pyval \<Rightarrow> exn + pyval"
  download_file :: "pyval \<Rightarrow> exn + pyval \<times> pyval"
  fmt_kb :: "pyval \<Rightarrow> exn + string"
  write_json_to_file :: "string \<Rightarrow> report \<Rightarrow> exn + unit"

section \<open>The stages\<close>

definition analyze_release_history ::
  "pm_proxy \<Rightarrow> threat_model \<Rightarrow> pyval \<Rightarrow> pyval \<Rightarrow> pyval \<Rightarrow> (risks \<times> report) prog" where
  "analyze_release_history pm_proxy threat_model pkg_name ver_str pkg_info = stage (
     bnd (py_print ''[+] Checking release history...'') (\<lambda>_.
     bnd (lift (get_release_history pm_proxy pkg_name pkg_info)) (\<lambda>release_history.
     bnd (py_assert (truthy release_history) ''no data!'') (\<lambda>_.
     bnd (lift (py_len release_history)) (\<lambda>n.
     bnd (if n < 2 then
            alert ''few versions or releases'' threat_model
              (''only '' @ string_of_nat n @ '' versions released'')
          else
            try_except
              (bnd (lift (subscript release_history ver_str)) (\<lambda>release.
               bnd (lift (subscript release (PStr ''days_since_last_release''))) (\<lambda>days.
               bnd (if truthy days then lift (py_gt days 180) else ret False) (\<lambda>long_gap.
               if long_gap then
                 bnd (lift (fmt_d days)) (\<lambda>d.
                 alert ''version release after a long gap'' threat_model
                   (''version released after '' @ d @ '' days''))
               else ret ()))))
              is_Exception
              (\<lambda>ee. py_print (str_exn ee))) (\<lambda>_.
     bnd (py_print (''OK ['' @ string_of_nat n @ '' versions]'')) (\<lambda>_.
     set_report ''releases'' release_history)))))))"

definition analyze_version ::
  "world \<Rightarrow> threat_model \<Rightarrow> pyval \<Rightarrow> (risks \<times> report) prog" where
  "analyze_version w threat_model ver_info = stage (
     bnd (py_print ''[+] Checking version...'') (\<lambda>_.
     bnd (py_assert (truthy ver_info) ''no data!'') (\<lambda>_.
     bnd (try_except
            (bnd (lift (subscript ver_info (PStr ''uploaded''))) (\<lambda>uploaded.
             bnd (lift (datetime_delta w uploaded)) (\<lambda>days.
             ret (uploaded, days))))
            is_KeyError
            (\<lambda>e. py_raise (Exception ''parse error''))) (\<lambda>(uploaded, days).
     bnd (if \<not> truthy uploaded then ret True else lift (py_gt days 365)) (\<lambda>old.
     bnd (if old then
            bnd (if \<not> truthy uploaded then ret ''no release date''
                 else bnd (lift (fmt_d days)) (\<lambda>d. ret (d @ '' days old''))) (\<lambda>reason.
            alert ''old package'' threat_model reason)
          else ret ()) (\<lambda>_.
     bnd (lift (fmt_d days)) (\<lambda>d.
     bnd (py_print (''OK ['' @ d @ '' days old]'')) (\<lambda>_.
     set_report ''version'' ver_info))))))))"

text \<open>
  \<^verbatim>\<open>','.join(vul['id'] for vul in vuln_list)\<close>: every element is subscripted before
  \<^verbatim>\<open>join\<close> looks at the items, which must be strings.
\<close>

fun each :: "('a \<Rightarrow> exn + 'b) \<Rightarrow> 'a list \<Rightarrow> exn + 'b list" where
  "each f [] = Inr []"
| "each f (x # xs) =
     (case f x of
        Inl e \<Rightarrow> Inl e
      | Inr y \<Rightarrow> (case each f xs of Inl e \<Rightarrow> Inl e | Inr ys \<Rightarrow> Inr (y # ys)))"

text \<open>The items that \<^verbatim>\<open>join\<close> is given, counted from \<open>i\<close>.\<close>

fun str_items :: "nat \<Rightarrow> pyval list \<Rightarrow> exn + string list" where
  "str_items i [] = Inr []"
| "str_items i (PStr s # vs) =
     (case str_items (Suc i) vs of Inl e \<Rightarrow> Inl e | Inr ss \<Rightarrow> Inr (s # ss))"
| "str_items i (v # vs) =
     Inl (TypeError (''sequence item '' @ string_of_nat i @ '': expected str instance, '' @
                     type_name v @ '' found''))"

definition vuln_ids :: "pyval \<Rightarrow> exn + string list" where
  "vuln_ids vuln_list =
     (case vuln_list of
        PList vuls \<Rightarrow>
          (case each (\<lambda>vul. subscript vul (PStr ''id'')) vuls of
             Inl e \<Rightarrow> Inl e
           | Inr ids \<Rightarrow> str_items 0 ids)
      | PStr cs \<Rightarrow> Inl (TypeError ''string indices must be integers'')
      | PDict kvs \<Rightarrow> Inl (TypeError ''string indices must be integers'')
      | _ \<Rightarrow> Inl (TypeError (quoted (type_name vuln_list) @ '' object is not iterable'')))"

definition analyze_cves ::
  "world \<Rightarrow> threat_model \<Rightarrow> string \<Rightarrow> pyval \<Rightarrow> pyval \<Rightarrow> (risks \<times> report) prog" where
  "analyze_cves w threat_model pm_name pkg_name ver_str = stage (
     bnd (py_print ''[+] Checking for CVEs...'') (\<lambda>_.
     bnd (lift (get_pkgver_vulns w pm_name pkg_name ver_str)) (\<lambda>vuln_list.
     bnd (if truthy vuln_list then
            bnd (lift (vuln_ids vuln_list)) (\<lambda>ids.
            bnd (alert ''contains known vulnerablities (CVEs)'' threat_model
                   (''contains '' @ join '','' ids)) (\<lambda>_.
            ret vuln_list))
          else ret (PList [])) (\<lambda>vuln_list.
     bnd (lift (py_len vuln_list)) (\<lambda>n.
     bnd (py_print (''OK ['' @ string_of_nat n @ '' found]'')) (\<lambda>_.
     set_report ''vulnerabilities'' vuln_list))))))"

definition analyze_downloads ::
  "world \<Rightarrow> pm_proxy \<Rightarrow> threat_model \<Rightarrow> pyval \<Rightarrow> (risks \<times> report) prog" where
  "analyze_downloads w pm_proxy threat_model pkg_name = stage (
     bnd (py_print ''[+] Checking downloads...'') (\<lambda>_.
     bnd (lift (get_downloads pm_proxy pkg_name)) (\<lambda>downloads.
     bnd (lift (py_lt downloads 1000)) (\<lambda>few.
     bnd (if few then
            bnd (lift (fmt_d downloads)) (\<lambda>d.
            alert ''few downloads'' threat_model (''only '' @ d @ '' weekly downloads''))
          else ret ()) (\<lambda>_.
     bnd (lift (human_format w downloads)) (\<lambda>h.
     py_print (''OK ['' @ py_str h @ '' weekly]'')))))))"

definition analyze_homepage ::
  "world \<Rightarrow> pm_proxy \<Rightarrow> threat_model \<Rightarrow> pyval \<Rightarrow> pyval \<Rightarrow> pyval \<Rightarrow> (risks \<times> report) prog" where
  "analyze_homepage w pm_proxy threat_model pkg_name ver_str pkg_info = stage (
     bnd (py_print ''[+] Checking homepage...'') (\<lambda>_.
     bnd (lift (get_homepage pm_proxy pkg_name ver_str pkg_info)) (\<lambda>url.
     bnd (if \<not> truthy url then alert ''invalid or no homepage'' threat_model ''no homepage''
          else ret ()) (\<lambda>_.
     bnd (lift (parse_url w url)) (\<lambda>parsed.
     bnd (if scheme parsed \<noteq> ''https''
          then alert ''invalid or no homepage'' threat_model ''insecure webpage''
          else ret ()) (\<lambda>_.
     bnd (lift (check_site_exist w url)) (\<lambda>(valid_site, reason).
     bnd (if \<not> truthy valid_site then
            alert ''invalid or no homepage'' threat_model (py_str reason)
          else
            bnd (lift (check_domain_popular w url)) (\<lambda>popular.
            if truthy popular
            then alert ''invalid or no homepage'' threat_model ''invalid (popular) webpage''
            else ret ())) (\<lambda>_.
     bnd (py_print (''OK ['' @ py_str url @ '']'')) (\<lambda>_.
     set_report ''homepage'' url)))))))))"

definition popular_hosting_services :: "string list" where
  "popular_hosting_services =
     [''https://github.com/'', ''https://gitlab.com/'', ''git+https://github.com/'',
      ''git://github.com/'']"

text \<open>\<^verbatim>\<open>repo.startswith(tuple(popular_hosting_services))\<close>: a method of strings.\<close>

definition startswith :: "pyval \<Rightarrow> string list \<Rightarrow> exn + bool" where
  "startswith v starts =
     (case v of
        PStr s \<Rightarrow> Inr (list_ex (\<lambda>p. prefix p s) starts)
      | _ \<Rightarrow> Inl (AttributeError (quoted (type_name v) @ '' object has no attribute '' @
                                quoted ''startswith'')))"

definition strip_char :: "char \<Rightarrow> string \<Rightarrow> string" where
  "strip_char c s = rev (dropWhile (\<lambda>x. x = c) (rev (dropWhile (\<lambda>x. x = c) s)))"

text \<open>
  \<^verbatim>\<open>if not repo or not repo.startswith(...): repo = None\<close>, for a candidate taken from
  the homepage or the download link.
\<close>

definition hosted_or_none :: "pyval \<Rightarrow> pyval prog" where
  "hosted_or_none repo =
     bnd (if \<not> truthy repo then ret True
          else bnd (lift (startswith repo popular_hosting_services)) (\<lambda>b. ret (\<not> b))) (\<lambda>drop.
     ret (if drop then PNone else repo))"

definition analyze_repo ::
  "pm_proxy \<Rightarrow> threat_model \<Rightarrow> pyval \<Rightarrow> pyval \<Rightarrow> pyval \<Rightarrow> pyval \<Rightarrow> (risks \<times> report) prog" where
  "analyze_repo pm_proxy threat_model pkg_name ver_str pkg_info ver_info = stage (
     bnd (py_print ''[+] Checking repo...'') (\<lambda>_.
     bnd (lift (get_repo pm_proxy pkg_name ver_str pkg_info ver_info)) (\<lambda>repo.
     bnd (if \<not> truthy repo then
            bnd (lift (get_homepage pm_proxy pkg_name ver_str pkg_info)) hosted_or_none
          else ret repo) (\<lambda>repo.
     bnd (if \<not> truthy repo then
            bnd (lift (get_download_url pm_proxy pkg_name ver_str pkg_info)) hosted_or_none
          else ret repo) (\<lambda>repo.
     bnd (if \<not> truthy repo then
            alert ''invalid or no source repo'' threat_model ''no source repo found''
          else
            bnd (lift (startswith repo popular_hosting_services)) (\<lambda>hosted.
            if \<not> hosted then
              alert ''invalid or no source repo'' threat_model
                (''invalid source repo '' @ py_str repo)
            else if strip_char CHR ''/'' (py_str repo) \<in>
                      set [''https://github.com/pypa/sampleproject'',
                           ''https://github.com/kubernetes/kubernetes'']
            then alert ''invalid or no source repo'' threat_model
                   (''invalid source repo '' @ py_str repo)
            else ret ())) (\<lambda>_.
     bnd (py_print (''OK ['' @ py_str repo @ '']'')) (\<lambda>_.
     set_report ''repo'' repo)))))))"

definition analyze_readme ::
  "pm_proxy \<Rightarrow> threat_model \<Rightarrow> pyval \<Rightarrow> pyval \<Rightarrow> pyval \<Rightarrow> (risks \<times> report) prog" where
  "analyze_readme pm_proxy threat_model pkg_name ver_str pkg_info = stage (
     bnd (py_print ''[+] Checking readme...'') (\<lambda>_.
     bnd (lift (get_description pm_proxy pkg_name ver_str pkg_info)) (\<lambda>descr.
     bnd (if \<not> truthy descr then ret True
          else bnd (lift (py_len descr)) (\<lambda>n. ret (n < 100))) (\<lambda>insufficient.
     bnd (if insufficient then
            alert ''no or insufficient readme'' threat_model
              (if \<not> truthy descr then ''no description'' else ''insufficient description'')
          else ret ()) (\<lambda>_.
     bnd (lift (py_len descr)) (\<lambda>n.
     py_print (''OK ['' @ string_of_nat n @ '' bytes]'')))))))"

definition analyze_author ::
  "world \<Rightarrow> pm_proxy \<Rightarrow> threat_model \<Rightarrow> pyval \<Rightarrow> pyval \<Rightarrow> pyval \<Rightarrow> pyval \<Rightarrow>
   (risks \<times> report) prog" where
  "analyze_author w pm_proxy threat_model pkg_name ver_str pkg_info ver_info = stage (
     bnd (py_print ''[+] Checking author...'') (\<lambda>_.
     bnd (lift (get_author pm_proxy pkg_name ver_str pkg_info ver_info)) (\<lambda>author_info.
     bnd (py_assert (truthy author_info) ''no data!'') (\<lambda>_.
     bnd (try_except (lift (subscript author_info (PStr ''email'')))
            is_KeyError (\<lambda>e. ret PNone)) (\<lambda>email.
     bnd (lift (check_email_address w email)) (\<lambda>(valid, valid_with_dns).
     bnd (if \<not> truthy valid \<or> \<not> truthy valid_with_dns then
            alert ''invalid or no author email (2FA not enabled)'' threat_model
              (if \<not> truthy email then ''no email''
               else if \<not> truthy valid then ''invalid author email''
               else ''expired author email domain'')
          else ret ()) (\<lambda>_.
     bnd (py_print (''OK ['' @ py_str email @ '']'')) (\<lambda>_.
     set_report ''author'' author_info))))))))"

subsection \<open>Static API usage\<close>

text \<open>\<^verbatim>\<open>p in "SINK_CODE_GENERATION"\<close> is a substring test.\<close>

fun is_substring :: "string \<Rightarrow> string \<Rightarrow> bool" where
  "is_substring p [] = (p = [])"
| "is_substring p (c # cs) = (prefix p (c # cs) \<or> is_substring p cs)"

text \<open>
  The chain of \<^verbatim>\<open>if\<close>/\<^verbatim>\<open>elif\<close> in the loop of \<^verbatim>\<open>analyze_apis\<close>, in the
  order of the source: the pair \<open>(alert_type, reason)\<close> that the branch taken assigns.
  The sixth test is the string literal \<^verbatim>\<open>"SINK_PROCESS_OPERATION"\<close> itself.
\<close>

definition classify_usage :: "string \<Rightarrow> (string \<times> string) option" where
  "classify_usage p =
     (if p = ''SOURCE_FILE'' then
        Some (''accesses files and dirs'', ''reads files and dirs'')
      else if p = ''SINK_FILE'' then
        Some (''accesses files and dirs'', ''writes to files and dirs'')
      else if p = ''SINK_NETWORK'' then
        Some (''communicates with external network'', ''sends data over the network %s'')
      else if p = ''SOURCE_NETWORK'' then
        Some (''communicates with external network'', ''fetches data over the network'')
      else if is_substring p ''SINK_CODE_GENERATION'' then
        Some (''generates new code at runtime'', ''generates new code at runtime'')
      else if truthy (PStr ''SINK_PROCESS_OPERATION'') then
        Some (''generates new code at runtime'', ''spawns new processes in background'')
      else if p = ''SOURCE_OBFUSCATION'' then
        Some (''accesses obfuscated (hidden) code'', ''reads hidden code'')
      else if p = ''SOURCE_SETTINGS'' then
        Some (''accesses system/environment variables'',
              ''reads system settings or environment variables'')
      else if p = ''SINK_UNCLASSIFIED'' then
        Some (''changes system/environment variables'',
              ''modifies system settings or environment variables'')
      else if p = ''SOURCE_ACCOUNT'' then
        Some (''changes system/environment variables'',
              ''modifies system settings or environment variables'')
      else if p = ''SOURCE_USER_INPUT'' then
        Some (''reads user input'', ''reads user input'')
      else None)"

text \<open>A usage payload that is a list of call sites.\<close>

fun is_list_value :: "pyval \<Rightarrow> bool" where
  "is_list_value (PList xs) = True"
| "is_list_value v = False"

text \<open>\<^verbatim>\<open>old += usage\<close>: a list is extended by the items of any iterable.\<close>

definition not_addable :: "pyval \<Rightarrow> pyval \<Rightarrow> exn" where
  "not_addable old usage =
     TypeError (''unsupported operand type(s) for +=: '' @ quoted (type_name old) @ '' and '' @
                quoted (type_name usage))"

definition py_iadd :: "pyval \<Rightarrow> pyval \<Rightarrow> exn + pyval" where
  "py_iadd old usage =
     (case old of
        PList xs \<Rightarrow>
          (case usage of
             PList ys \<Rightarrow> Inr (PList (xs @ ys))
           | PStr cs \<Rightarrow> Inr (PList (xs @ map (\<lambda>c. PStr [c]) cs))
           | PDict kvs \<Rightarrow> Inr (PList (xs @ map (\<lambda>kv. PStr (fst kv)) kvs))
           | _ \<Rightarrow> Inl (TypeError (quoted (type_name usage) @ '' object is not iterable'')))
      | PStr a \<Rightarrow>
          (case usage of
             PStr b \<Rightarrow> Inr (PStr (a @ b))
           | _ \<Rightarrow> Inl (TypeError (''can only concatenate str (not '' @ [CHR 0x22] @
                                  type_name usage @ [CHR 0x22] @ '') to str'')))
      | PInt a \<Rightarrow>
          (case as_int usage of
             None \<Rightarrow> Inl (not_addable old usage)
           | Some b \<Rightarrow> Inr (PInt (a + b)))
      | PBool a \<Rightarrow>
          (case as_int usage of
             None \<Rightarrow> Inl (not_addable old usage)
           | Some b \<Rightarrow> Inr (PInt ((if a then 1 else 0) + b)))
      | _ \<Rightarrow> Inl (not_addable old usage))"

text \<open>
  \<^verbatim>\<open>if reason not in report_data: report_data[reason] = usage / else: report_data[reason] += usage\<close>
\<close>

definition add_usage :: "(string \<times> pyval) list \<Rightarrow> string \<Rightarrow> pyval \<Rightarrow> exn + (string \<times> pyval) list" where
  "add_usage report_data reason usage =
     (case map_of report_data reason of
        None \<Rightarrow> Inr (AList.update reason usage report_data)
      | Some old \<Rightarrow>
          (case py_iadd old usage of
             Inl e \<Rightarrow> Inl e
           | Inr v \<Rightarrow> Inr (AList.update reason v report_data)))"

text \<open>
  The loop \<^verbatim>\<open>for p, usage in perms.items()\<close>. The variable \<^verbatim>\<open>reason\<close> keeps its
  value from one pass to the next and has none before the first assignment.
\<close>

fun usage_loop ::
  "threat_model \<Rightarrow> (string \<times> pyval) list \<Rightarrow> string option \<Rightarrow> (string \<times> pyval) list \<Rightarrow>
   ((string \<times> pyval) list) prog" where
  "usage_loop threat_model [] reason report_data = ret report_data"
| "usage_loop threat_model ((p, usage) # rest) reason report_data =
     bnd (case classify_usage p of
            None \<Rightarrow> ret reason
          | Some (alert_type, new_reason) \<Rightarrow>
              bnd (alert alert_type threat_model new_reason) (\<lambda>_. ret (Some new_reason))) (\<lambda>reason.
     bnd (case reason of
            None \<Rightarrow>
              py_raise (UnboundLocalError (''local variable '' @ quoted ''reason'' @
                                           '' referenced before assignment''))
          | Some r \<Rightarrow> lift (add_usage report_data r usage)) (\<lambda>report_data.
     usage_loop threat_model rest reason report_data))"

definition py_items :: "pyval \<Rightarrow> exn + (string \<times> pyval) list" where
  "py_items v =
     (case v of
        PDict kvs \<Rightarrow> Inr kvs
      | _ \<Rightarrow> Inl (AttributeError (quoted (type_name v) @ '' object has no attribute '' @
                                quoted ''items'')))"

text \<open>\<^verbatim>\<open>filepath+'.out'\<close>\<close>

definition py_add_str :: "pyval \<Rightarrow> string \<Rightarrow> exn + pyval" where
  "py_add_str v ending =
     (case v of
        PStr s \<Rightarrow> Inr (PStr (s @ ending))
      | PList xs \<Rightarrow>
          Inl (TypeError (''can only concatenate list (not '' @ [CHR 0x22] @ ''str'' @ [CHR 0x22] @
                          '') to list''))
      | _ \<Rightarrow>
          Inl (TypeError (''unsupported operand type(s) for +: '' @ quoted (type_name v) @
                          '' and '' @ quoted ''str'')))"

definition analyze_apis ::
  "world \<Rightarrow> threat_model \<Rightarrow> string \<Rightarrow> pyval \<Rightarrow> pyval \<Rightarrow> pyval \<Rightarrow> (risks \<times> report) prog" where
  "analyze_apis w threat_model pm_name pkg_name ver_str filepath = stage (
     bnd (py_print ''[+] Analyzing APIs...'') (\<lambda>_.
     bnd (if pm_name = ''pypi'' then ret (python, ''config/astgen_python_smt.config'')
          else if pm_name = ''npm'' then ret (javascript, ''config/astgen_javascript_smt.config'')
          else py_raise (Exception ''Package manager %s not supported!'')) (\<lambda>(language, configpath).
     bnd (lift (get_static_proxy_for_language w language)) (\<lambda>static.
     bnd (try_except
            (bnd (lift (py_add_str filepath ''.out'')) (\<lambda>outfile.
             lift (astgen static filepath outfile configpath pkg_name ver_str)))
            is_Exception
            (\<lambda>ee. py_raise (Exception ''parse error''))) (\<lambda>_.
     bnd (lift (py_add_str filepath ''.out'')) (\<lambda>outfile.
     bnd (lift (path_exists w outfile)) (\<lambda>exists_out.
     bnd (py_assert exists_out ''parse error!'') (\<lambda>_.
     bnd (lift (parse_api_usage w pm_name outfile)) (\<lambda>perms.
     bnd (py_assert (truthy perms) ''No APIs found!'') (\<lambda>_.
     bnd (lift (py_items perms)) (\<lambda>items.
     bnd (usage_loop threat_model items None []) (\<lambda>report_data.
     bnd (lift (py_len perms)) (\<lambda>n.
     bnd (py_print (''OK ['' @ string_of_nat n @ '' analyzed]'')) (\<lambda>_.
     set_report ''permissions'' (PDict report_data)))))))))))))))"

section \<open>The program\<close>

text \<open>\<^verbatim>\<open>get_threat_model\<close>: each row of the table gives one entry, a later row winning.\<close>

fun load_rows :: "string list list \<Rightarrow> threat_model \<Rightarrow> exn + threat_model" where
  "load_rows [] threat_model = Inr threat_model"
| "load_rows (line # rest) threat_model =
     (case index_list line 0 of
        Inl e \<Rightarrow> Inl e
      | Inr typ \<Rightarrow>
          (case index_list line 1 of
             Inl e \<Rightarrow> Inl e
           | Inr attr \<Rightarrow> load_rows rest (threat_model(strip_char (CHR 0x0A) attr \<mapsto> typ))))"

definition get_threat_model :: "world \<Rightarrow> string \<Rightarrow> exn + threat_model" where
  "get_threat_model w filename =
     (case read_from_csv w filename of
        Inl e \<Rightarrow> Inl e
      | Inr rows \<Rightarrow> load_rows rows Map.empty)"

text \<open>\<^verbatim>\<open>str.lower\<close> on ASCII letters.\<close>

definition lower_char :: "char \<Rightarrow> char" where
  "lower_char c =
     (if (65::nat) \<le> of_char c \<and> of_char c \<le> (90::nat) then char_of (of_char c + (32::nat)) else c)"

definition lower :: "string \<Rightarrow> string" where
  "lower s = map lower_char s"

text \<open>\<^verbatim>\<open>s.split('==')\<close>\<close>

fun split_eqeq :: "string \<Rightarrow> string list" where
  "split_eqeq [] = [[]]"
| "split_eqeq (c # cs) =
     (if prefix ''=='' (c # cs) then [] # split_eqeq (tl cs)
      else (case split_eqeq cs of [] \<Rightarrow> [[c]] | part # parts \<Rightarrow> (c # part) # parts))"

text \<open>
  \<^verbatim>\<open>report["risks"] = risks\<close>: the registry as a value of the report.
\<close>

definition risks_value :: "risks \<Rightarrow> pyval" where
  "risks_value risks = PDict (map (\<lambda>entry. (fst entry, PList (map PStr (snd entry)))) risks)"

text \<open>\<^verbatim>\<open>risks, report = analyze_...(...)\<close>\<close>

definition assign :: "risks \<times> report \<Rightarrow> unit prog" where
  "assign result s = (Ok (), s\<lparr>cur_risks := fst result, cur_report := snd result\<rparr>)"

definition write_report :: "world \<Rightarrow> string \<Rightarrow> unit prog" where
  "write_report w filename s =
     (case write_json_to_file w filename (cur_report s) of
        Inl e \<Rightarrow> (Raise e, s)
      | Inr u \<Rightarrow> (Ok (), s\<lparr>files := files s @ [(filename, cur_report s)]\<rparr>))"

text \<open>
  The preparation of the run, up to the end of the block that fetches the metadata: it gives
  the values of \<^verbatim>\<open>threat_model\<close>, \<^verbatim>\<open>pm_name\<close>, \<^verbatim>\<open>pm_proxy\<close>, \<^verbatim>\<open>pkg_name\<close>,
  \<^verbatim>\<open>ver_str\<close>, \<^verbatim>\<open>pkg_info\<close> and \<^verbatim>\<open>ver_info\<close>.
\<close>

definition fetch ::
  "pm_proxy \<Rightarrow> string \<Rightarrow> pyval \<Rightarrow> pyval \<Rightarrow> (pyval \<times> pyval \<times> pyval \<times> pyval) prog" where
  "fetch pm_proxy pm_name pkg_name ver_str =
     try_except
       (bnd (py_print (''[+] Fetching '' @ [CHR 0x27] @ py_str pkg_name @ [CHR 0x27] @ '' from '' @ pm_name @ ''...'')) (\<lambda>_.
        bnd (lift (get_metadata pm_proxy pkg_name ver_str)) (\<lambda>pkg_info.
        bnd (py_assert (truthy pkg_info) ''package not found!'') (\<lambda>_.
        bnd (try_except
               (bnd (lift (subscript pkg_info (PStr ''info''))) (\<lambda>info.
                lift (subscript info (PStr ''name''))))
               is_KeyError
               (\<lambda>e. ret pkg_name)) (\<lambda>pkg_name.
        bnd (lift (get_version pm_proxy pkg_name ver_str pkg_info)) (\<lambda>ver_info.
        bnd (py_assert (truthy ver_info) ''No version info!'') (\<lambda>_.
        bnd (if \<not> truthy ver_str then lift (subscript ver_info (PStr ''tag'')) else ret ver_str) (\<lambda>ver_str.
        bnd (py_print (''OK [ver '' @ py_str ver_str @ '']'')) (\<lambda>_.
        ret (pkg_name, ver_str, pkg_info, ver_info))))))))))
       is_Exception
       (\<lambda>e. bnd (py_print (''FAILED ['' @ str_exn e @ '']'')) (\<lambda>_. py_raise (SystemExit 1)))"

definition prepare ::
  "world \<Rightarrow> string list \<Rightarrow>
   (threat_model \<times> string \<times> pm_proxy \<times> pyval \<times> pyval \<times> pyval \<times> pyval) prog" where
  "prepare w argv =
     bnd (lift (get_threat_model w ''threats.csv'')) (\<lambda>threat_model.
     bnd (lift (index_list argv 1)) (\<lambda>arg1.
     bnd (ret (lower arg1)) (\<lambda>pm_name.
     bnd (if pm_name = ''pypi'' then ret pypi
          else if pm_name = ''npm'' then ret npmjs
          else bnd (py_print (''Package manager '' @ pm_name @ '' is not supported''))
                 (\<lambda>_. py_raise (SystemExit 1))) (\<lambda>pm.
     bnd (lift (get_pm_proxy w pm)) (\<lambda>proxy.
     bnd (case proxy of
            None \<Rightarrow> py_raise (AssertionError (pm_name @ '' not supported''))
          | Some pm_proxy \<Rightarrow> ret pm_proxy) (\<lambda>pm_proxy.
     bnd (lift (index_list argv 2)) (\<lambda>arg2.
     bnd (if is_substring ''=='' arg2 then
            (case split_eqeq arg2 of
               [name, version] \<Rightarrow> ret (PStr name, PStr version)
             | _ \<Rightarrow> py_raise (ValueError ''too many values to unpack (expected 2)''))
          else ret (PStr arg2, PNone)) (\<lambda>(pkg_name, ver_str).
     bnd (fetch pm_proxy pm_name pkg_name ver_str) (\<lambda>(pkg_name, ver_str, pkg_info, ver_info).
     ret (threat_model, pm_name, pm_proxy, pkg_name, ver_str, pkg_info, ver_info))))))))))"

text \<open>The block \<^verbatim>\<open># download package\<close>.\<close>

definition download :: "world \<Rightarrow> string \<Rightarrow> pyval \<Rightarrow> pyval \<Rightarrow> pyval \<Rightarrow> unit prog" where
  "download w pm_name pkg_name ver_str ver_info =
     try_except
       (bnd (py_print (''[+] Downloading package '' @ [CHR 0x27] @ py_str pkg_name @ [CHR 0x27] @
                       '' (ver '' @ py_str ver_str @ '') from '' @ pm_name @ ''...'')) (\<lambda>_.
        bnd (lift (subscript ver_info (PStr ''url''))) (\<lambda>url.
        bnd (lift (download_file w url)) (\<lambda>(filepath, size).
        bnd (\<lambda>s. (Ok (), s\<lparr>var_filepath := Some filepath\<rparr>)) (\<lambda>_.
        bnd (lift (fmt_kb w size)) (\<lambda>kb.
        py_print (''OK ['' @ kb @ '' KB]'')))))))
       is_Exception
       (\<lambda>e. if is_KeyError e then py_print ''FAILED [URL missing]''
            else py_print (''FAILED ['' @ str_exn e @ '']''))"

text \<open>The block \<^verbatim>\<open># analyze metadata\<close>: eight stages, in the order of the calls.\<close>

definition analyze_metadata ::
  "world \<Rightarrow> threat_model \<Rightarrow> string \<Rightarrow> pm_proxy \<Rightarrow> pyval \<Rightarrow> pyval \<Rightarrow> pyval \<Rightarrow> pyval \<Rightarrow> unit prog" where
  "analyze_metadata w threat_model pm_name pm_proxy pkg_name ver_str pkg_info ver_info =
     bnd (bnd (analyze_version w threat_model ver_info) assign) (\<lambda>_.
     bnd (bnd (analyze_release_history pm_proxy threat_model pkg_name ver_str pkg_info) assign) (\<lambda>_.
     bnd (bnd (analyze_author w pm_proxy threat_model pkg_name ver_str pkg_info ver_info) assign) (\<lambda>_.
     bnd (bnd (analyze_readme pm_proxy threat_model pkg_name ver_str pkg_info) assign) (\<lambda>_.
     bnd (bnd (analyze_homepage w pm_proxy threat_model pkg_name ver_str pkg_info) assign) (\<lambda>_.
     bnd (bnd (analyze_downloads w pm_proxy threat_model pkg_name) assign) (\<lambda>_.
     bnd (bnd (analyze_repo pm_proxy threat_model pkg_name ver_str pkg_info ver_info) assign) (\<lambda>_.
     bnd (analyze_cves w threat_model pm_name pkg_name ver_str) assign)))))))"

text \<open>
  From \<^verbatim>\<open>risks = {}\<close> to the call of \<^verbatim>\<open>analyze_apis\<close>: the metadata stages, the
  download, and the API analysis when \<^verbatim>\<open>filepath\<close> is true.
\<close>

definition pipeline ::
  "world \<Rightarrow> threat_model \<Rightarrow> string \<Rightarrow> pm_proxy \<Rightarrow> pyval \<Rightarrow> pyval \<Rightarrow> pyval \<Rightarrow> pyval \<Rightarrow> unit prog" where
  "pipeline w threat_model pm_name pm_proxy pkg_name ver_str pkg_info ver_info =
     bnd (assign ([], [])) (\<lambda>_.
     bnd (analyze_metadata w threat_model pm_name pm_proxy pkg_name ver_str pkg_info ver_info) (\<lambda>_.
     bnd (download w pm_name pkg_name ver_str ver_info) (\<lambda>_.
     bnd (\<lambda>s. case var_filepath s of
                 None \<Rightarrow> (Raise (NameError (''name '' @ quoted ''filepath'' @ '' is not defined'')), s)
               | Some filepath \<Rightarrow> (Ok filepath, s)) (\<lambda>filepath.
     if truthy filepath
     then bnd (analyze_apis w threat_model pm_name pkg_name ver_str filepath) assign
     else ret ()))))"

definition finish :: "world \<Rightarrow> string \<Rightarrow> pyval \<Rightarrow> pyval \<Rightarrow> unit prog" where
  "finish w pm_name pkg_name ver_str =
     bnd (py_print (replicate 45 (CHR ''=''))) (\<lambda>_.
     bnd (\<lambda>s. (Ok (cur_risks s), s)) (\<lambda>risks.
     bnd (if length risks = 0 then
            bnd (py_print ''[+] No risks found!'') (\<lambda>_.
            set_report ''risks'' PNone)
          else
            bnd (py_print (''[+] '' @ string_of_nat (sum_list (map (\<lambda>entry. length (snd entry)) risks)) @
                           '' risk(s) found, package is '' @ join '', '' (map fst risks) @ ''!'')) (\<lambda>_.
            set_report ''risks'' (risks_value risks))) (\<lambda>_.
     bnd (ret (pm_name @ ''-'' @ py_str pkg_name @ ''-'' @ py_str ver_str @ ''.json'')) (\<lambda>filename.
     bnd (write_report w filename) (\<lambda>_.
     bnd (py_print (''=> Complete report: '' @ filename)) (\<lambda>_.
     if lower pm_name = ''pypi''
     then py_print (''=> View pre-vetted package report at https://packj.dev/package/PyPi/'' @
                    py_str pkg_name @ ''/'' @ py_str ver_str)
     else ret ()))))))"

definition main :: "world \<Rightarrow> string list \<Rightarrow> unit prog" where
  "main w argv =
     bnd (prepare w argv) (\<lambda>(threat_model, pm_name, pm_proxy, pkg_name, ver_str, pkg_info, ver_info).
     bnd (pipeline w threat_model pm_name pm_proxy pkg_name ver_str pkg_info ver_info) (\<lambda>_.
     finish w pm_name pkg_name ver_str))"

text \<open>
  The state in which the program starts, and the exit status of a run: 0 when the
  program reaches its end, the argument of \<^verbatim>\<open>exit\<close>, and 1 for an exception that
  nothing catches.
\<close>

definition start :: st where
  "start = \<lparr>stdout = [], files = [], cur_risks = [], cur_report = [], var_filepath = None\<rparr>"

fun exit_code :: "unit result \<Rightarrow> nat" where
  "exit_code (Ok u) = 0"
| "exit_code (Raise (SystemExit n)) = n"
| "exit_code (Raise e) = 1"

section \<open>Calls of the stage functions\<close>

text \<open>
  A call of one of the nine stage functions with its explicit arguments. The globals
  \<^verbatim>\<open>pm_proxy\<close> and \<^verbatim>\<open>threat_model\<close> are the same for all of them.
\<close>

datatype stage_call =
    VersionCall pyval
  | ReleaseHistoryCall pyval pyval pyval
  | AuthorCall pyval pyval pyval pyval
  | ReadmeCall pyval pyval pyval
  | HomepageCall pyval pyval pyval
  | DownloadsCall pyval
  | RepoCall pyval pyval pyval pyval
  | CvesCall string pyval pyval
  | ApisCall string pyval pyval pyval

fun run_call :: "world \<Rightarrow> pm_proxy \<Rightarrow> threat_model \<Rightarrow> stage_call \<Rightarrow> (risks \<times> report) prog" where
  "run_call w pm_proxy threat_model (VersionCall ver_info) =
     analyze_version w threat_model ver_info"
| "run_call w pm_proxy threat_model (ReleaseHistoryCall pkg_name ver_str pkg_info) =
     analyze_release_history pm_proxy threat_model pkg_name ver_str pkg_info"
| "run_call w pm_proxy threat_model (AuthorCall pkg_name ver_str pkg_info ver_info) =
     analyze_author w pm_proxy threat_model pkg_name ver_str pkg_info ver_info"
| "run_call w pm_proxy threat_model (ReadmeCall pkg_name ver_str pkg_info) =
     analyze_readme pm_proxy threat_model pkg_name ver_str pkg_info"
| "run_call w pm_proxy threat_model (HomepageCall pkg_name ver_str pkg_info) =
     analyze_homepage w pm_proxy threat_model pkg_name ver_str pkg_info"
| "run_call w pm_proxy threat_model (DownloadsCall pkg_name) =
     analyze_downloads w pm_proxy threat_model pkg_name"
| "run_call w pm_proxy threat_model (RepoCall pkg_name ver_str pkg_info ver_info) =
     analyze_repo pm_proxy threat_model pkg_name ver_str pkg_info ver_info"
| "run_call w pm_proxy threat_model (CvesCall pm_name pkg_name ver_str) =
     analyze_cves w threat_model pm_name pkg_name ver_str"
| "run_call w pm_proxy threat_model (ApisCall pm_name pkg_name ver_str filepath) =
     analyze_apis w threat_model pm_name pkg_name ver_str filepath"

text \<open>The function that a call names, and the section of the report that it writes.\<close>

datatype stage_fn =
    Version | ReleaseHistory | Author | Readme | Homepage | Downloads | Repo | Cves | Apis

fun fn_of :: "stage_call \<Rightarrow> stage_fn" where
  "fn_of (VersionCall ver_info) = Version"
| "fn_of (ReleaseHistoryCall pkg_name ver_str pkg_info) = ReleaseHistory"
| "fn_of (AuthorCall pkg_name ver_str pkg_info ver_info) = Author"
| "fn_of (ReadmeCall pkg_name ver_str pkg_info) = Readme"
| "fn_of (HomepageCall pkg_name ver_str pkg_info) = Homepage"
| "fn_of (DownloadsCall pkg_name) = Downloads"
| "fn_of (RepoCall pkg_name ver_str pkg_info ver_info) = Repo"
| "fn_of (CvesCall pm_name pkg_name ver_str) = Cves"
| "fn_of (ApisCall pm_name pkg_name ver_str filepath) = Apis"

fun section_of :: "stage_fn \<Rightarrow> string option" where
  "section_of Version = Some ''version''"
| "section_of ReleaseHistory = Some ''releases''"
| "section_of Author = Some ''author''"
| "section_of Readme = None"
| "section_of Homepage = Some ''homepage''"
| "section_of Downloads = None"
| "section_of Repo = Some ''repo''"
| "section_of Cves = Some ''vulnerabilities''"
| "section_of Apis = Some ''permissions''"

text \<open>
  Every message recorded before is still there, in its place at the front of the list
  of its category.
\<close>

definition risks_extends :: "risks \<Rightarrow> risks \<Rightarrow> bool" where
  "risks_extends old new = (\<forall>cat. prefix (messages old cat) (messages new cat))"

subsection \<open>Default arguments\<close>

text \<open>
  Every stage function is declared with \<^verbatim>\<open>risks={}, report={}\<close>. The two dictionaries
  are made once, when the \<^verbatim>\<open>def\<close> statement runs, and a call that leaves the
  arguments out works on these two objects. The function changes \<^verbatim>\<open>risks\<close> and
  \<^verbatim>\<open>report\<close> in place (\<^verbatim>\<open>alert_user\<close> returns the dictionary it was given), so
  what the call leaves in them is what the next such call starts from. The store
  holds the two default objects of each function.
\<close>

type_synonym defaults = "stage_fn \<Rightarrow> risks \<times> report"

definition fresh_defaults :: defaults where
  "fresh_defaults = (\<lambda>fn. ([], []))"

definition call_with_defaults ::
  "world \<Rightarrow> pm_proxy \<Rightarrow> threat_model \<Rightarrow> stage_call \<Rightarrow> defaults \<times> string list \<Rightarrow>
   (risks \<times> report) result \<times> defaults \<times> string list" where
  "call_with_defaults w pm_proxy threat_model call state =
     (case run_call w pm_proxy threat_model call
             \<lparr>stdout = snd state, files = [],
              cur_risks = fst (fst state (fn_of call)),
              cur_report = snd (fst state (fn_of call)), var_filepath = None\<rparr> of
        (result, s) \<Rightarrow>
          (result, (fst state)(fn_of call := (cur_risks s, cur_report s)), stdout s))"

section \<open>Reading the output\<close>

text \<open>The line that a stage prints when it starts.\<close>

definition is_header :: "string \<Rightarrow> bool" where
  "is_header line = (prefix ''[+] Checking'' line \<or> prefix ''[+] Analyzing'' line)"

definition headers :: "string list \<Rightarrow> string list" where
  "headers out = filter is_header out"

text \<open>\<open>precedes a b out\<close>: the line \<open>a\<close> was printed, and the line \<open>b\<close> after it.\<close>

definition precedes :: "string \<Rightarrow> string \<Rightarrow> string list \<Rightarrow> bool" where
  "precedes a b out = (b \<in> set (dropWhile (\<lambda>line. line \<noteq> a) out) \<and> a \<noteq> b)"

text \<open>
  What the statements of a stage, after its first line, may do to the state: print
  lines that are not the first line of a stage, append alerts, and write the section
  of the stage. They leave the files and the variable \<^verbatim>\<open>filepath\<close> alone.
\<close>

definition evolves :: "string option \<Rightarrow> st \<Rightarrow> st \<Rightarrow> bool" where
  "evolves sec s t =
     (files t = files s \<and> var_filepath t = var_filepath s \<and>
      risks_extends (cur_risks s) (cur_risks t) \<and>
      (\<exists>new. stdout t = stdout s @ new \<and> headers new = []) \<and>
      (cur_report t = cur_report s \<or>
       (\<exists>section v. sec = Some section \<and>
          cur_report t = AList.update section v (cur_report s))))"

definition preserves :: "(st \<Rightarrow> st \<Rightarrow> bool) \<Rightarrow> 'a prog \<Rightarrow> bool" where
  "preserves R m = (\<forall>s. R s (snd (m s)))"

fun header_of :: "stage_fn \<Rightarrow> string" where
  "header_of Version = ''[+] Checking version...''"
| "header_of ReleaseHistory = ''[+] Checking release history...''"
| "header_of Author = ''[+] Checking author...''"
| "header_of Readme = ''[+] Checking readme...''"
| "header_of Homepage = ''[+] Checking homepage...''"
| "header_of Downloads = ''[+] Checking downloads...''"
| "header_of Repo = ''[+] Checking repo...''"
| "header_of Cves = ''[+] Checking for CVEs...''"
| "header_of Apis = ''[+] Analyzing APIs...''"

text \<open>
  What a whole stage does to the state: it prints its first line once, and otherwise
  changes the state as its statements may.
\<close>

definition stage_effect :: "stage_fn \<Rightarrow> st \<Rightarrow> st \<Rightarrow> bool" where
  "stage_effect fn s t =
     (files t = files s \<and> var_filepath t = var_filepath s \<and>
      risks_extends (cur_risks s) (cur_risks t) \<and>
      prefix (stdout s) (stdout t) \<and>
      headers (stdout t) = headers (stdout s) @ [header_of fn] \<and>
      (cur_report t = cur_report s \<or>
       (\<exists>section v. section_of fn = Some section \<and>
          cur_report t = AList.update section v (cur_report s))))"

section \<open>Failures and recorded alerts\<close>

text \<open>An operation or a collaborator's call that raises.\<close>

definition raises :: "exn + 'a \<Rightarrow> bool" where
  "raises outcome = (case outcome of Inl e \<Rightarrow> True | Inr x \<Rightarrow> False)"

text \<open>The risks after a list of alerts, each a pair of alert type and reason, in order.\<close>

definition record_all :: "threat_model \<Rightarrow> (string \<times> string) list \<Rightarrow> risks \<Rightarrow> risks" where
  "record_all threat_model alerts risks =
     foldl (\<lambda>r alert. alert_user (fst alert) threat_model (snd alert) r) risks alerts"

text \<open>The alerts of the tags of a usage record, in the order of the record.\<close>

definition tag_alerts :: "(string \<times> pyval) list \<Rightarrow> (string \<times> string) list" where
  "tag_alerts items = List.map_filter (\<lambda>item. classify_usage (fst item)) items"

section \<open>A sample run\<close>

text \<open>
  Concrete collaborators, for evaluating the program: a registry that knows one package
  with one release and no upload date, a site that is reachable, five weekly downloads,
  no advisories, and an analyzer that reports two usage tags.
\<close>

definition sample_ver_info :: pyval where
  "sample_ver_info = PDict [(''tag'', PStr ''1.0''), (''url'', PStr ''https://files.example/pkg-1.0.tar.gz'')]"

definition sample_proxy :: pm_proxy where
  "sample_proxy =
     \<lparr>get_metadata = (\<lambda>pkg_name pkg_version. Inr (PDict [(''info'', PDict [(''name'', PStr ''pkg'')])])),
      get_version = (\<lambda>pkg_name ver_str pkg_info. Inr sample_ver_info),
      get_release_history = (\<lambda>pkg_name pkg_info.
         Inr (PDict [(''1.0'', PDict [(''days_since_last_release'', PNone)])])),
      get_author = (\<lambda>pkg_name ver_str pkg_info ver_info. Inr (PDict [(''email'', PStr ''dev@example.org'')])),
      get_description = (\<lambda>pkg_name ver_str pkg_info. Inr (PStr ''A package.'')),
      get_homepage = (\<lambda>pkg_name ver_str pkg_info. Inr (PStr ''http://example.org'')),
      get_repo = (\<lambda>pkg_name ver_str pkg_info ver_info. Inr PNone),
      get_download_url = (\<lambda>pkg_name ver_str pkg_info. Inr PNone),
      get_downloads = (\<lambda>pkg_name. Inr (PInt 5))\<rparr>"

definition sample_perms :: pyval where
  "sample_perms =
     PDict [(''SOURCE_OBFUSCATION'', PList [PStr ''a.py:1'']),
            (''SINK_NETWORK'', PList [PStr ''b.py:2''])]"

definition sample_world :: world where
  "sample_world =
     \<lparr>read_from_csv = (\<lambda>filename.
         Inr [[''undesirable'', ''old package''],
              [''undesirable'', ''few versions or releases''],
              [''undesirable'', ''few downloads''],
              [''undesirable'', ''invalid or no source repo''],
              [''undesirable'', ''invalid or no homepage''],
              [''vulnerable'', ''accesses obfuscated (hidden) code''],
              [''malicious'', ''generates new code at runtime''],
              [''malicious'', ''communicates with external network'']]),
      get_pm_proxy = (\<lambda>pm. Inr (Some sample_proxy)),
      datetime_delta = (\<lambda>uploaded. Inr (PInt 10)),
      check_email_address = (\<lambda>email. Inr (PBool True, PBool True)),
      parse_url = (\<lambda>url. Inr (ParsedUrl ''http'')),
      check_site_exist = (\<lambda>url. Inr (PBool True, PStr '''')),
      check_domain_popular = (\<lambda>url. Inr (PBool False)),
      get_pkgver_vulns = (\<lambda>pm_name pkg_name ver_str. Inr (PList [])),
      human_format = (\<lambda>n. Inr (PStr ''5'')),
      get_static_proxy_for_language = (\<lambda>language.
         Inr (StaticProxy (\<lambda>inpath outfile configpath pkg_name pkg_version. Inr ()))),
      path_exists = (\<lambda>path. Inr True),
      parse_api_usage = (\<lambda>pm_name path. Inr sample_perms),
      download_file = (\<lambda>url. Inr (PStr ''/tmp/pkg-1.0.tar.gz'', PInt 2048)),
      fmt_kb = (\<lambda>size. Inr ''2.00''),
      write_json_to_file = (\<lambda>filename report. Inr ())\<rparr>"

definition sample_threat_model :: threat_model where
  "sample_threat_model =
     [''old package'' \<mapsto> ''undesirable'',
      ''few versions or releases'' \<mapsto> ''undesirable'',
      ''few downloads'' \<mapsto> ''undesirable'',
      ''invalid or no source repo'' \<mapsto> ''undesirable'',
      ''invalid or no homepage'' \<mapsto> ''undesirable'',
      ''accesses obfuscated (hidden) code'' \<mapsto> ''vulnerable'',
      ''generates new code at runtime'' \<mapsto> ''malicious'',
      ''communicates with external network'' \<mapsto> ''malicious'']"

text \<open>A history of two releases, the second one 200 days after the first.\<close>

definition two_releases :: "(string \<times> pyval) list" where
  "two_releases = [(''0.9'', PDict [(''days_since_last_release'', PNone)]),
                   (''1.0'', PDict [(''days_since_last_release'', PInt 200)])]"


text \<open>The same collaborators, except that the download of the archive times out.\<close>

definition offline_world :: world where
  "offline_world = sample_world\<lparr>download_file := (\<lambda>url. Inl (Exception ''timeout''))\<rparr>"


text \<open>A registry and collaborators that are down: every call raises.\<close>

definition down_proxy :: pm_proxy where
  "down_proxy =
     \<lparr>get_metadata = (\<lambda>pkg_name pkg_version. Inl (Exception ''503'')),
      get_version = (\<lambda>pkg_name ver_str pkg_info. Inl (Exception ''503'')),
      get_release_history = (\<lambda>pkg_name pkg_info. Inl (Exception ''503'')),
      get_author = (\<lambda>pkg_name ver_str pkg_info ver_info. Inl (Exception ''503'')),
      get_description = (\<lambda>pkg_name ver_str pkg_info. Inl (Exception ''503'')),
      get_homepage = (\<lambda>pkg_name ver_str pkg_info. Inl (Exception ''503'')),
      get_repo = (\<lambda>pkg_name ver_str pkg_info ver_info. Inl (Exception ''503'')),
      get_download_url = (\<lambda>pkg_name ver_str pkg_info. Inl (Exception ''503'')),
      get_downloads = (\<lambda>pkg_name. Inl (Exception ''503''))\<rparr>"

definition down_world :: world where
  "down_world =
     sample_world\<lparr>get_pkgver_vulns := (\<lambda>pm_name pkg_name ver_str. Inl (Exception ''503'')),
                  get_static_proxy_for_language := (\<lambda>language. Inl (Exception ''503''))\<rparr>"

text \<open>
  A registry and collaborators that fail late: the upload date, the description and
  the author's email are missing, the probe of the site and the formatting of the
  download count raise, and the usage record has a count where a list was before.
\<close>

definition flaky_proxy :: pm_proxy where
  "flaky_proxy =
     sample_proxy\<lparr>get_release_history := (\<lambda>pkg_name pkg_info. Inr (PDict two_releases)),
                   get_author := (\<lambda>pkg_name ver_str pkg_info ver_info. Inr (PDict [(''name'', PStr ''dev'')])),
                   get_description := (\<lambda>pkg_name ver_str pkg_info. Inr PNone)\<rparr>"

definition flaky_perms :: "(string \<times> pyval) list" where
  "flaky_perms = [(''SOURCE_OBFUSCATION'', PList [PStr ''a.py:1'']), (''SOURCE_SETTINGS'', PInt 3)]"

definition flaky_world :: world where
  "flaky_world =
     sample_world\<lparr>datetime_delta := (\<lambda>uploaded. Inr PNone),
                  check_email_address := (\<lambda>email. Inr (PBool False, PBool False)),
                  check_site_exist := (\<lambda>url. Inl (Exception ''timeout'')),
                  human_format := (\<lambda>n. Inl (Exception ''overflow'')),
                  parse_api_usage := (\<lambda>pm_name path. Inr (PDict flaky_perms))\<rparr>"

text \<open>A threat model that gives a category to every alert type of the stages.\<close>

definition full_threat_model :: threat_model where
  "full_threat_model =
     sample_threat_model
       (''invalid or no author email (2FA not enabled)'' \<mapsto> ''undesirable'',
        ''no or insufficient readme'' \<mapsto> ''undesirable'',
        ''contains known vulnerablities (CVEs)'' \<mapsto> ''vulnerable'')"

section \<open>The alert registry\<close>

lemma map_of_alert_user:
  "threat_model alert_type = Some cat \<Longrightarrow>
   map_of (alert_user alert_type threat_model reason risks) =
     (map_of risks)(cat \<mapsto> messages risks cat @ [alert_type @ '': '' @ reason])"
  by (auto simp: alert_user_def messages_def map_of_map_entry update_conv' fun_eq_iff
           split: option.splits)

lemma keys_alert_user:
  "threat_model alert_type = Some cat \<Longrightarrow>
   map fst (alert_user alert_type threat_model reason risks) =
     (if map_of risks cat = None then map fst risks @ [cat] else map fst risks)"
proof -
  have m: "map fst (AList.map_entry k f xs) = map fst xs" for k and f :: "'b \<Rightarrow> 'b" and xs :: "('a \<times> 'b) list"
    by (induction xs) auto
  have u: "map_of xs k = None \<Longrightarrow> map fst (AList.update k v xs) = map fst xs @ [k]"
    for k :: 'a and v :: 'b and xs
    by (induction xs) (auto split: if_splits)
  assume "threat_model alert_type = Some cat"
  then show ?thesis
    by (simp add: alert_user_def m u)
qed

text \<open>
  C5. When the alert type is not a key of the threat model, \<open>alert_user\<close> returns the
  risks unchanged. Otherwise the message \<open>alert_type: reason\<close> is appended to the list
  of the configured category, every other category keeps its list, and a category that
  had no entry gets one at the end of the dictionary. Recording the same alert twice
  appends the message twice.
\<close>

theorem alert_user_appends:
  "(threat_model alert_type = None \<longrightarrow>
      alert_user alert_type threat_model reason risks = risks) \<and>
   (threat_model alert_type = Some cat \<longrightarrow>
      messages (alert_user alert_type threat_model reason risks) cat =
        messages risks cat @ [alert_type @ '': '' @ reason] \<and>
      (\<forall>c. c \<noteq> cat \<longrightarrow>
         map_of (alert_user alert_type threat_model reason risks) c = map_of risks c) \<and>
      map fst (alert_user alert_type threat_model reason risks) =
        (if map_of risks cat = None then map fst risks @ [cat] else map fst risks) \<and>
      messages (alert_user alert_type threat_model reason
                 (alert_user alert_type threat_model reason risks)) cat =
        messages risks cat @ [alert_type @ '': '' @ reason, alert_type @ '': '' @ reason])"
proof (intro conjI impI)
  assume "threat_model alert_type = None"
  then show "alert_user alert_type threat_model reason risks = risks"
    by (simp add: alert_user_def)
next
  assume tm: "threat_model alert_type = Some cat"
  show "messages (alert_user alert_type threat_model reason risks) cat =
          messages risks cat @ [alert_type @ '': '' @ reason]"
    using tm by (simp add: messages_def map_of_alert_user)
  show "\<forall>c. c \<noteq> cat \<longrightarrow>
          map_of (alert_user alert_type threat_model reason risks) c = map_of risks c"
    using tm by (simp add: map_of_alert_user)
  show "map fst (alert_user alert_type threat_model reason risks) =
          (if map_of risks cat = None then map fst risks @ [cat] else map fst risks)"
    using tm by (rule keys_alert_user)
  show "messages (alert_user alert_type threat_model reason
                   (alert_user alert_type threat_model reason risks)) cat =
          messages risks cat @ [alert_type @ '': '' @ reason, alert_type @ '': '' @ reason]"
    using tm by (simp add: messages_def map_of_alert_user)
qed

theorem alert_user_appends_witness:
  "[''few downloads'' \<mapsto> ''undesirable''] ''no such alert'' = None \<and>
   alert_user ''no such alert'' [''few downloads'' \<mapsto> ''undesirable''] ''x''
     [(''undesirable'', [''old package: no release date''])] =
     [(''undesirable'', [''old package: no release date''])] \<and>
   [''few downloads'' \<mapsto> ''undesirable''] ''few downloads'' = Some ''undesirable'' \<and>
   messages (alert_user ''few downloads'' [''few downloads'' \<mapsto> ''undesirable'']
              ''only 5 weekly downloads''
              (alert_user ''few downloads'' [''few downloads'' \<mapsto> ''undesirable'']
                ''only 5 weekly downloads'' [])) ''undesirable'' =
     [''few downloads: only 5 weekly downloads'', ''few downloads: only 5 weekly downloads'']"
  using alert_user_appends [of "[''few downloads'' \<mapsto> ''undesirable'']" "''no such alert''"
          "''x''" "[(''undesirable'', [''old package: no release date''])]" "''undesirable''"]
        alert_user_appends [of "[''few downloads'' \<mapsto> ''undesirable'']" "''few downloads''"
          "''only 5 weekly downloads''" "[]" "''undesirable''"]
  by (simp add: messages_def)
section \<open>Running the statements\<close>

lemmas prog_defs = bnd_def ret_def py_raise_def lift_def py_print_def py_assert_def alert_def
  set_report_def try_except_def returning_def stage_def assign_def

lemma subscript_found_truthy: "subscript v (PStr k) = Inr x \<Longrightarrow> truthy v"
  by (cases v) (auto simp: subscript_def split: option.splits)

lemma string_of_nat_numerals:
  "string_of_nat (Suc 0) = ''1''" "string_of_nat 1 = ''1''" "string_of_nat 400 = ''400''"
  by (simp_all add: string_of_nat.simps digit_char_def)


lemma messages_alert_user:
  "threat_model alert_type = Some cat \<Longrightarrow>
   messages (alert_user alert_type threat_model reason risks) cat =
     messages risks cat @ [alert_type @ '': '' @ reason]"
  by (simp add: messages_def map_of_alert_user)


lemmas sample_defs = sample_world_def sample_proxy_def sample_ver_info_def sample_perms_def
  sample_threat_model_def start_def

lemma raises_iff: "raises outcome \<longleftrightarrow> (\<exists>e. outcome = Inl e)"
  by (cases outcome) (simp_all add: raises_def)


subsection \<open>What the statements preserve\<close>

lemma risks_extends_refl: "risks_extends r r"
  by (simp add: risks_extends_def)

lemma risks_extends_trans: "risks_extends a b \<Longrightarrow> risks_extends b c \<Longrightarrow> risks_extends a c"
  unfolding risks_extends_def by (meson prefix_order.trans)

lemma risks_extends_alert_user: "risks_extends r (alert_user a tm reason r)"
proof (cases "tm a")
  case None
  then show ?thesis by (simp add: alert_user_def risks_extends_def)
next
  case (Some cat)
  then show ?thesis
    by (simp add: risks_extends_def messages_def map_of_alert_user)
qed

lemma evolves_refl: "evolves sec s s"
  by (simp add: evolves_def risks_extends_refl headers_def)

lemma evolves_trans:
  assumes "evolves sec s t" and "evolves sec t u"
  shows "evolves sec s u"
proof -
  from assms obtain n1 n2 where
    n: "stdout t = stdout s @ n1" "headers n1 = []" "stdout u = stdout t @ n2" "headers n2 = []"
    unfolding evolves_def by blast
  then have out: "\<exists>new. stdout u = stdout s @ new \<and> headers new = []"
    by (intro exI [of _ "n1 @ n2"]) (simp add: headers_def)
  from assms have rep: "cur_report u = cur_report s \<or>
       (\<exists>section v. sec = Some section \<and> cur_report u = AList.update section v (cur_report s))"
    unfolding evolves_def by auto
  from assms have "risks_extends (cur_risks s) (cur_risks u)"
    unfolding evolves_def using risks_extends_trans by blast
  with assms out rep show ?thesis
    unfolding evolves_def by simp
qed

lemma preserves_ret: "preserves (evolves sec) (ret x)"
  by (simp add: preserves_def ret_def evolves_refl)

lemma preserves_raise: "preserves (evolves sec) (py_raise e)"
  by (simp add: preserves_def py_raise_def evolves_refl)

lemma preserves_lift: "preserves (evolves sec) (lift r)"
  by (cases r) (simp_all add: lift_def preserves_ret preserves_raise)

lemma preserves_assert: "preserves (evolves sec) (py_assert c m)"
  by (simp add: py_assert_def preserves_ret preserves_raise)

lemma preserves_print: "\<not> is_header text \<Longrightarrow> preserves (evolves sec) (py_print text)"
  by (simp add: preserves_def py_print_def evolves_def risks_extends_refl headers_def)

lemma preserves_alert: "preserves (evolves sec) (alert a tm reason)"
  by (simp add: preserves_def alert_def evolves_def risks_extends_alert_user headers_def)

lemma preserves_set_report:
  "sec = Some section \<Longrightarrow> preserves (evolves sec) (set_report section v)"
  by (auto simp add: preserves_def set_report_def evolves_def risks_extends_refl headers_def)

lemma preserves_bnd:
  assumes "preserves (evolves sec) m" and "\<And>x. preserves (evolves sec) (f x)"
  shows "preserves (evolves sec) (bnd m f)"
  unfolding preserves_def
proof
  fix s
  obtain r t where m: "m s = (r, t)"
    by (cases "m s")
  from assms(1) m have st: "evolves sec s t"
    unfolding preserves_def by (metis snd_conv)
  show "evolves sec s (snd (bnd m f s))"
  proof (cases r)
    case (Ok x)
    from assms(2) have "evolves sec t (snd (f x t))"
      unfolding preserves_def by blast
    with st Ok m show ?thesis
      by (simp add: bnd_def) (erule (1) evolves_trans)
  next
    case (Raise e)
    with st m show ?thesis
      by (simp add: bnd_def)
  qed
qed

lemma preserves_try:
  assumes "preserves (evolves sec) m" and "\<And>e. preserves (evolves sec) (h e)"
  shows "preserves (evolves sec) (try_except m c h)"
  unfolding preserves_def
proof
  fix s
  obtain r t where m: "m s = (r, t)"
    by (cases "m s")
  from assms(1) m have st: "evolves sec s t"
    unfolding preserves_def by (metis snd_conv)
  show "evolves sec s (snd (try_except m c h s))"
  proof (cases r)
    case (Ok x)
    with st m show ?thesis
      by (simp add: try_except_def)
  next
    case (Raise e)
    from assms(2) have "evolves sec t (snd (h e t))"
      unfolding preserves_def by blast
    with st Raise m show ?thesis
      by (auto simp add: try_except_def elim: evolves_trans)
  qed
qed

lemma preserves_if:
  "(c \<Longrightarrow> preserves R a) \<Longrightarrow> (\<not> c \<Longrightarrow> preserves R b) \<Longrightarrow> preserves R (if c then a else b)"
  by simp

lemma preserves_case_prod:
  "(\<And>a b. preserves R (f a b)) \<Longrightarrow> preserves R (case p of (a, b) \<Rightarrow> f a b)"
  by (cases p) simp

lemma preserves_case_option:
  "preserves R a \<Longrightarrow> (\<And>x. preserves R (f x)) \<Longrightarrow> preserves R (case v of None \<Rightarrow> a | Some x \<Rightarrow> f x)"
  by (cases v) simp_all

lemmas preserves_rules = preserves_bnd preserves_try preserves_ret preserves_raise preserves_lift
  preserves_assert preserves_alert preserves_set_report preserves_if preserves_case_prod
  preserves_case_option preserves_print

lemma not_header_first [simp]:
  "c \<noteq> CHR ''['' \<Longrightarrow> \<not> is_header (c # rest)" "\<not> is_header []"
  by (simp_all add: is_header_def)

lemma is_header_header_of: "is_header (header_of fn)"
  by (cases fn) (simp_all add: is_header_def)

lemma stage_effect_of_body:
  assumes h: "h = header_of fn"
      and rest: "preserves (evolves (section_of fn)) rest"
  shows "\<exists>t. stage (bnd (py_print h) (\<lambda>u. rest)) s = (Ok (cur_risks t, cur_report t), t) \<and>
             stage_effect fn s t"
proof -
  define s0 where "s0 = s\<lparr>stdout := stdout s @ [h]\<rparr>"
  obtain r t1 where r: "rest s0 = (r, t1)"
    by (cases "rest s0")
  from rest r have ev: "evolves (section_of fn) s0 t1"
    unfolding preserves_def by (metis snd_conv)
  define t where "t = (case r of Ok u \<Rightarrow> t1
                      | Raise e \<Rightarrow> if is_Exception e
                                   then t1\<lparr>stdout := stdout t1 @ [''FAILED ['' @ str_exn e @ '']'']\<rparr>
                                   else t1)"
  have res: "stage (bnd (py_print h) (\<lambda>u. rest)) s = (Ok (cur_risks t, cur_report t), t)"
    using r by (cases r) (simp_all add: prog_defs s0_def t_def)
  have "evolves (section_of fn) t1 t"
    by (cases r) (simp_all add: t_def evolves_def risks_extends_refl headers_def)
  with ev have "evolves (section_of fn) s0 t"
    by (rule evolves_trans)
  then have "stage_effect fn s t"
    using is_header_header_of [of fn]
    by (auto simp add: evolves_def stage_effect_def s0_def h headers_def)
  with res show ?thesis
    by blast
qed

lemma analyze_readme_effect:
  "\<exists>t. analyze_readme pm_proxy threat_model pkg_name ver_str pkg_info s =
          (Ok (cur_risks t, cur_report t), t) \<and> stage_effect Readme s t"
  unfolding analyze_readme_def
  by (rule stage_effect_of_body) (simp, intro preserves_rules, simp_all)

lemma analyze_version_effect:
  "\<exists>t. analyze_version w threat_model ver_info s =
          (Ok (cur_risks t, cur_report t), t) \<and> stage_effect Version s t"
  unfolding analyze_version_def
  by (rule stage_effect_of_body) (simp, intro preserves_rules, simp_all)

lemma analyze_author_effect:
  "\<exists>t. analyze_author w pm_proxy threat_model pkg_name ver_str pkg_info ver_info s =
          (Ok (cur_risks t, cur_report t), t) \<and> stage_effect Author s t"
  unfolding analyze_author_def
  by (rule stage_effect_of_body) (simp, intro preserves_rules, simp_all)

lemma analyze_homepage_effect:
  "\<exists>t. analyze_homepage w pm_proxy threat_model pkg_name ver_str pkg_info s =
          (Ok (cur_risks t, cur_report t), t) \<and> stage_effect Homepage s t"
  unfolding analyze_homepage_def
  by (rule stage_effect_of_body) (simp, intro preserves_rules, simp_all)

lemma analyze_downloads_effect:
  "\<exists>t. analyze_downloads w pm_proxy threat_model pkg_name s =
          (Ok (cur_risks t, cur_report t), t) \<and> stage_effect Downloads s t"
  unfolding analyze_downloads_def
  by (rule stage_effect_of_body) (simp, intro preserves_rules, simp_all)

lemma analyze_repo_effect:
  "\<exists>t. analyze_repo pm_proxy threat_model pkg_name ver_str pkg_info ver_info s =
          (Ok (cur_risks t, cur_report t), t) \<and> stage_effect Repo s t"
  unfolding analyze_repo_def hosted_or_none_def
  by (rule stage_effect_of_body) (simp, intro preserves_rules, simp_all)

lemma analyze_cves_effect:
  "\<exists>t. analyze_cves w threat_model pm_name pkg_name ver_str s =
          (Ok (cur_risks t, cur_report t), t) \<and> stage_effect Cves s t"
  unfolding analyze_cves_def
  by (rule stage_effect_of_body) (simp, intro preserves_rules, simp_all)


lemma string_of_nat_starts_with_digit:
  "\<exists>c cs. string_of_nat n = c # cs \<and> c \<in> set ''0123456789''"
proof (induction n rule: string_of_nat.induct)
  case (1 n)
  have d: "digit_char (n mod 10) \<in> set ''0123456789''"
    unfolding digit_char_def by (rule nth_mem) simp
  show ?case
  proof (cases "10 \<le> n")
    case True
    with 1 obtain c cs where "string_of_nat (n div 10) = c # cs" "c \<in> set ''0123456789''"
      by blast
    with True show ?thesis
      by (subst string_of_nat.simps) simp
  next
    case False
    with d show ?thesis
      by (subst string_of_nat.simps) simp
  qed
qed

lemma not_header_string_of_int: "\<not> is_header (string_of_int i)"
proof -
  obtain c cs where "string_of_nat (nat i) = c # cs" "c \<in> set ''0123456789''"
    using string_of_nat_starts_with_digit by blast
  then show ?thesis
    by (auto simp add: string_of_int_def)
qed

lemma not_header_repr_str: "\<not> is_header (repr_str key)"
  by (simp add: repr_str_def is_header_def Let_def)

lemma subscript_error_quiet: "subscript v k = Inl e \<Longrightarrow> \<not> is_header (str_exn e)"
proof (cases v)
  case (PDict kvs)
  assume "subscript v k = Inl e"
  with PDict show ?thesis
    by (cases k)
       (auto simp add: subscript_def not_header_repr_str not_header_string_of_int
             split: option.splits if_splits)
next
  case (PList xs)
  assume "subscript v k = Inl e"
  with PList show ?thesis
    by (auto simp add: subscript_def index_list_def split: option.splits if_splits)
next
  case (PStr cs)
  assume "subscript v k = Inl e"
  with PStr show ?thesis
    by (auto simp add: subscript_def split: option.splits sum.splits)
qed (auto simp add: subscript_def quoted_def)

lemma py_gt_error_quiet: "py_gt v n = Inl e \<Longrightarrow> \<not> is_header (str_exn e)"
  by (auto simp add: py_gt_def not_comparable_def quoted_def split: option.splits)

lemma fmt_d_error_quiet: "fmt_d v = Inl e \<Longrightarrow> \<not> is_header (str_exn e)"
  by (cases v) auto

lemma preserves_try_print:
  assumes "preserves (evolves sec) m"
      and "\<And>s e t. m s = (Raise e, t) \<Longrightarrow> \<not> is_header (str_exn e)"
  shows "preserves (evolves sec) (try_except m c (\<lambda>ee. py_print (str_exn ee)))"
  unfolding preserves_def
proof
  fix s
  obtain r t where m: "m s = (r, t)"
    by (cases "m s")
  from assms(1) m have st: "evolves sec s t"
    unfolding preserves_def by (metis snd_conv)
  show "evolves sec s (snd (try_except m c (\<lambda>ee. py_print (str_exn ee)) s))"
  proof (cases r)
    case (Ok x)
    with st m show ?thesis
      by (simp add: try_except_def)
  next
    case (Raise e)
    with assms(2) m have "\<not> is_header (str_exn e)"
      by blast
    then have "evolves sec t (snd (py_print (str_exn e) t))"
      using preserves_print unfolding preserves_def by blast
    with st Raise m show ?thesis
      by (auto simp add: try_except_def elim: evolves_trans)
  qed
qed

lemma gap_check_raises_quiet:
  assumes "bnd (lift (subscript release_history ver_str)) (\<lambda>release.
           bnd (lift (subscript release (PStr ''days_since_last_release''))) (\<lambda>days.
           bnd (if truthy days then lift (py_gt days 180) else ret False) (\<lambda>long_gap.
           if long_gap then
             bnd (lift (fmt_d days)) (\<lambda>d.
             alert ''version release after a long gap'' threat_model
               (''version released after '' @ d @ '' days''))
           else ret ()))) s = (Raise e, t)"
  shows "\<not> is_header (str_exn e)"
  using assms
  by (auto simp add: prog_defs split: sum.splits if_splits
           dest: subscript_error_quiet py_gt_error_quiet fmt_d_error_quiet)

lemma analyze_release_history_effect:
  "\<exists>t. analyze_release_history pm_proxy threat_model pkg_name ver_str pkg_info s =
          (Ok (cur_risks t, cur_report t), t) \<and> stage_effect ReleaseHistory s t"
  unfolding analyze_release_history_def
  apply (rule stage_effect_of_body)
   apply simp
  apply (intro preserves_bnd preserves_try_print preserves_ret preserves_raise preserves_lift
      preserves_assert preserves_alert preserves_set_report preserves_if preserves_print)
            apply (simp_all)
  apply (erule gap_check_raises_quiet)
  done

lemma preserves_usage_loop:
  "preserves (evolves sec) (usage_loop threat_model items reason report_data)"
proof (induction items arbitrary: reason report_data)
  case Nil
  show ?case by (simp add: preserves_ret)
next
  case (Cons item items)
  obtain p usage where item: "item = (p, usage)"
    by (cases item)
  show ?case
    unfolding item usage_loop.simps
    by (intro preserves_rules Cons.IH)
qed

lemma analyze_apis_effect:
  "\<exists>t. analyze_apis w threat_model pm_name pkg_name ver_str filepath s =
          (Ok (cur_risks t, cur_report t), t) \<and> stage_effect Apis s t"
  unfolding analyze_apis_def
  by (rule stage_effect_of_body) (simp, intro preserves_rules preserves_usage_loop, simp_all)

lemma run_call_effect:
  "\<exists>t. run_call w pm_proxy threat_model call s = (Ok (cur_risks t, cur_report t), t) \<and>
       stage_effect (fn_of call) s t"
  by (cases call)
     (simp_all add: analyze_version_effect analyze_release_history_effect analyze_author_effect
        analyze_readme_effect analyze_homepage_effect analyze_downloads_effect analyze_repo_effect
        analyze_cves_effect analyze_apis_effect)


subsection \<open>The blocks of the program\<close>

lemma analyze_metadata_effect:
  "\<exists>t8. analyze_metadata w threat_model pm_name pm_proxy pkg_name ver_str pkg_info ver_info s =
           (Ok (), t8) \<and>
         files t8 = files s \<and> var_filepath t8 = var_filepath s \<and>
         risks_extends (cur_risks s) (cur_risks t8) \<and>
         prefix (stdout s) (stdout t8) \<and>
         headers (stdout t8) = headers (stdout s) @
           [''[+] Checking version...'', ''[+] Checking release history...'',
            ''[+] Checking author...'', ''[+] Checking readme...'',
            ''[+] Checking homepage...'', ''[+] Checking downloads...'',
            ''[+] Checking repo...'', ''[+] Checking for CVEs...'']"
proof -
  define s0 where "s0 = s"
  obtain t1 where t1: "analyze_version w threat_model ver_info s0 = (Ok (cur_risks t1, cur_report t1), t1)"
      "stage_effect Version s0 t1"
    using analyze_version_effect by blast
  obtain t2 where t2: "analyze_release_history pm_proxy threat_model pkg_name ver_str pkg_info t1 =
        (Ok (cur_risks t2, cur_report t2), t2)" "stage_effect ReleaseHistory t1 t2"
    using analyze_release_history_effect by blast
  obtain t3 where t3: "analyze_author w pm_proxy threat_model pkg_name ver_str pkg_info ver_info t2 =
        (Ok (cur_risks t3, cur_report t3), t3)" "stage_effect Author t2 t3"
    using analyze_author_effect by blast
  obtain t4 where t4: "analyze_readme pm_proxy threat_model pkg_name ver_str pkg_info t3 =
        (Ok (cur_risks t4, cur_report t4), t4)" "stage_effect Readme t3 t4"
    using analyze_readme_effect by blast
  obtain t5 where t5: "analyze_homepage w pm_proxy threat_model pkg_name ver_str pkg_info t4 =
        (Ok (cur_risks t5, cur_report t5), t5)" "stage_effect Homepage t4 t5"
    using analyze_homepage_effect by blast
  obtain t6 where t6: "analyze_downloads w pm_proxy threat_model pkg_name t5 =
        (Ok (cur_risks t6, cur_report t6), t6)" "stage_effect Downloads t5 t6"
    using analyze_downloads_effect by blast
  obtain t7 where t7: "analyze_repo pm_proxy threat_model pkg_name ver_str pkg_info ver_info t6 =
        (Ok (cur_risks t7, cur_report t7), t7)" "stage_effect Repo t6 t7"
    using analyze_repo_effect by blast
  obtain t8 where t8: "analyze_cves w threat_model pm_name pkg_name ver_str t7 =
        (Ok (cur_risks t8, cur_report t8), t8)" "stage_effect Cves t7 t8"
    using analyze_cves_effect by blast
  note runs = t1(1) t2(1) t3(1) t4(1) t5(1) t6(1) t7(1) t8(1)
  note effs = t1(2) t2(2) t3(2) t4(2) t5(2) t6(2) t7(2) t8(2)
  have run: "analyze_metadata w threat_model pm_name pm_proxy pkg_name ver_str pkg_info ver_info s =
               (Ok (), t8)"
    using runs unfolding s0_def analyze_metadata_def by (simp add: bnd_def assign_def)
  from effs have "files t8 = files s" "var_filepath t8 = var_filepath s"
    by (simp_all add: stage_effect_def s0_def)
  moreover from effs have "risks_extends (cur_risks s0) (cur_risks t8)"
    unfolding stage_effect_def by (meson risks_extends_trans)
  moreover from effs have "prefix (stdout s0) (stdout t8)"
    unfolding stage_effect_def by (meson prefix_order.trans)
  moreover from effs have "headers (stdout t8) = headers (stdout s0) @
           [''[+] Checking version...'', ''[+] Checking release history...'',
            ''[+] Checking author...'', ''[+] Checking readme...'',
            ''[+] Checking homepage...'', ''[+] Checking downloads...'',
            ''[+] Checking repo...'', ''[+] Checking for CVEs...'']"
    by (simp add: stage_effect_def)
  ultimately show ?thesis
    using run by (intro exI [of _ t8]) (simp add: s0_def)
qed


lemma not_header_other [simp]:
  "c \<noteq> CHR ''C'' \<Longrightarrow> c \<noteq> CHR ''A'' \<Longrightarrow>
   \<not> is_header (CHR ''['' # CHR ''+'' # CHR '']'' # CHR '' '' # c # rest)"
  by (simp add: is_header_def)

lemma download_effect:
  "\<exists>r t. download w pm_name pkg_name ver_str ver_info s = (r, t) \<and>
          files t = files s \<and> cur_risks t = cur_risks s \<and> cur_report t = cur_report s \<and>
          headers (stdout t) = headers (stdout s) \<and>
          (var_filepath t = var_filepath s \<or>
           (\<exists>url filepath size. subscript ver_info (PStr ''url'') = Inr url \<and>
              download_file w url = Inr (filepath, size) \<and> var_filepath t = Some filepath))"
  by (auto simp add: download_def prog_defs headers_def split: sum.splits)

lemma subscript_error_is_Exception: "subscript v k = Inl e \<Longrightarrow> is_Exception e"
  by (cases v; cases k)
     (auto simp add: subscript_def index_list_def split: option.splits if_splits sum.splits)

lemma download_fails:
  assumes "subscript ver_info (PStr ''url'') = Inl e \<or>
           (\<exists>url. subscript ver_info (PStr ''url'') = Inr url \<and> download_file w url = Inl e \<and>
                  is_Exception e)"
  shows "download w pm_name pkg_name ver_str ver_info s =
           (Ok (), s\<lparr>stdout := stdout s @
              [''[+] Downloading package '' @ [CHR 0x27] @ py_str pkg_name @ [CHR 0x27] @
                 '' (ver '' @ py_str ver_str @ '') from '' @ pm_name @ ''...'',
               if is_KeyError e then ''FAILED [URL missing]''
               else ''FAILED ['' @ str_exn e @ '']'']\<rparr>)"
  using assms subscript_error_is_Exception [of ver_info "PStr ''url''" e]
  by (auto simp add: download_def prog_defs)

lemma pipeline_without_archive:
  assumes "var_filepath s = None"
      and "subscript ver_info (PStr ''url'') = Inl e \<or>
           (\<exists>url. subscript ver_info (PStr ''url'') = Inr url \<and> download_file w url = Inl e \<and>
                  is_Exception e)"
  shows "\<exists>t. pipeline w threat_model pm_name pm_proxy pkg_name ver_str pkg_info ver_info s =
               (Raise (NameError (''name '' @ quoted ''filepath'' @ '' is not defined'')), t) \<and>
             files t = files s \<and>
             last (stdout t) = (if is_KeyError e then ''FAILED [URL missing]''
                                else ''FAILED ['' @ str_exn e @ '']'')"
proof -
  define s0 where "s0 = s\<lparr>cur_risks := [], cur_report := []\<rparr>"
  obtain t8 where t8:
    "analyze_metadata w threat_model pm_name pm_proxy pkg_name ver_str pkg_info ver_info s0 = (Ok (), t8)"
    "files t8 = files s0" "var_filepath t8 = var_filepath s0"
    using analyze_metadata_effect by blast
  note d = download_fails [where s = t8 and pm_name = pm_name and pkg_name = pkg_name
      and ver_str = ver_str, OF assms(2)]
  from t8 d assms(1) show ?thesis
    by (simp add: pipeline_def bnd_def assign_def s0_def)
qed

lemma pipeline_headers:
  "\<exists>rest. headers (stdout (snd (pipeline w threat_model pm_name pm_proxy pkg_name ver_str
                                    pkg_info ver_info s))) =
            headers (stdout s) @
            [''[+] Checking version...'', ''[+] Checking release history...'',
             ''[+] Checking author...'', ''[+] Checking readme...'',
             ''[+] Checking homepage...'', ''[+] Checking downloads...'',
             ''[+] Checking repo...'', ''[+] Checking for CVEs...''] @ rest \<and>
          (rest = [] \<or> rest = [''[+] Analyzing APIs...''])"
proof -
  define s0 where "s0 = s\<lparr>cur_risks := [], cur_report := []\<rparr>"
  obtain t8 where t8:
    "analyze_metadata w threat_model pm_name pm_proxy pkg_name ver_str pkg_info ver_info s0 = (Ok (), t8)"
    "headers (stdout t8) = headers (stdout s0) @
           [''[+] Checking version...'', ''[+] Checking release history...'',
            ''[+] Checking author...'', ''[+] Checking readme...'',
            ''[+] Checking homepage...'', ''[+] Checking downloads...'',
            ''[+] Checking repo...'', ''[+] Checking for CVEs...'']"
    using analyze_metadata_effect by blast
  obtain r t9 where t9: "download w pm_name pkg_name ver_str ver_info t8 = (r, t9)"
    "headers (stdout t9) = headers (stdout t8)"
    using download_effect by blast
  have s0: "headers (stdout s0) = headers (stdout s)"
    by (simp add: s0_def)
  show ?thesis
  proof (cases r)
    case (Raise e)
    with t8 t9 s0 show ?thesis
      by (simp add: pipeline_def bnd_def assign_def s0_def)
  next
    case (Ok u)
    show ?thesis
    proof (cases "var_filepath t9")
      case None
      with Ok t8 t9 s0 show ?thesis
        by (simp add: pipeline_def bnd_def assign_def s0_def)
    next
      case (Some filepath)
      show ?thesis
      proof (cases "truthy filepath")
        case False
        with Some Ok t8 t9 s0 show ?thesis
          by (simp add: pipeline_def bnd_def assign_def s0_def ret_def)
      next
        case True
        obtain t10 where t10:
          "analyze_apis w threat_model pm_name pkg_name ver_str filepath t9 =
             (Ok (cur_risks t10, cur_report t10), t10)" "stage_effect Apis t9 t10"
          using analyze_apis_effect by blast
        with True Some Ok t8 t9 s0 show ?thesis
          by (simp add: pipeline_def bnd_def assign_def s0_def stage_effect_def)
      qed
    qed
  qed
qed


lemma not_header_count [simp]:
  "\<not> is_header (CHR ''['' # CHR ''+'' # CHR '']'' # CHR '' '' # string_of_nat n @ rest)"
proof -
  obtain c cs where "string_of_nat n = c # cs" "c \<in> set ''0123456789''"
    using string_of_nat_starts_with_digit by blast
  then show ?thesis
    by auto
qed

lemma not_header_replicate [simp]: "\<not> is_header (replicate n (CHR ''=''))"
  by (cases n) simp_all

lemma finish_effect:
  "headers (stdout (snd (finish w pm_name pkg_name ver_str s))) = headers (stdout s)"
  by (auto simp add: finish_def write_report_def prog_defs headers_def split: sum.splits)

lemma prepare_sample:
  "\<exists>threat_model.
     prepare sample_world [''main.py'', ''pypi'', ''pkg''] start =
       (Ok (threat_model, ''pypi'', sample_proxy, PStr ''pkg'', PStr ''1.0'',
            PDict [(''info'', PDict [(''name'', PStr ''pkg'')])], sample_ver_info),
        start\<lparr>stdout := [''[+] Fetching '' @ [CHR 0x27] @ ''pkg'' @ [CHR 0x27] @ '' from pypi...'',
                          ''OK [ver 1.0]'']\<rparr>)"
  by (simp add: prepare_def fetch_def prog_defs get_threat_model_def sample_world_def
        sample_proxy_def sample_ver_info_def start_def index_list_def lower_def lower_char_def
        subscript_def)

lemma prepare_offline:
  "\<exists>threat_model.
     prepare offline_world [''main.py'', ''pypi'', ''pkg''] start =
       (Ok (threat_model, ''pypi'', sample_proxy, PStr ''pkg'', PStr ''1.0'',
            PDict [(''info'', PDict [(''name'', PStr ''pkg'')])], sample_ver_info),
        start\<lparr>stdout := [''[+] Fetching '' @ [CHR 0x27] @ ''pkg'' @ [CHR 0x27] @ '' from pypi...'',
                          ''OK [ver 1.0]'']\<rparr>)"
  by (simp add: prepare_def fetch_def prog_defs get_threat_model_def sample_world_def
        sample_proxy_def sample_ver_info_def start_def index_list_def lower_def lower_char_def
        subscript_def offline_world_def)


subsection \<open>The loop over the usage record\<close>

lemma classify_usage_total: "\<exists>alert_type reason. classify_usage p = Some (alert_type, reason)"
  by (simp add: classify_usage_def)

lemma values_update:
  "list_all P (map snd al) \<Longrightarrow> P v \<Longrightarrow> list_all P (map snd (AList.update k v al))"
  by (induction al) auto

lemma add_usage_lists:
  assumes "list_all is_list_value (map snd report_data)" and "is_list_value usage"
  shows "\<exists>data. add_usage report_data reason usage = Inr data \<and>
                list_all is_list_value (map snd data) \<and>
                fst ` set data = insert reason (fst ` set report_data)"
proof (cases "map_of report_data reason")
  case None
  with assms show ?thesis
    by (simp add: add_usage_def values_update dom_update)
next
  case (Some old)
  then have "(reason, old) \<in> set report_data"
    by (rule map_of_SomeD)
  with assms(1) have "is_list_value old"
    by (auto simp add: list_all_iff)
  then obtain xs where old: "old = PList xs"
    by (cases old) simp_all
  from assms(2) obtain ys where usage: "usage = PList ys"
    by (cases usage) simp_all
  from Some old usage assms(1) show ?thesis
    by (simp add: add_usage_def py_iadd_def values_update dom_update)
qed

lemma risks_extends_messages:
  "risks_extends old new \<Longrightarrow> m \<in> set (messages old cat) \<Longrightarrow> m \<in> set (messages new cat)"
  unfolding risks_extends_def by (meson set_mono_prefix subsetD)

lemma usage_loop_records:
  assumes "list_all is_list_value (map snd items)"
      and "list_all is_list_value (map snd report_data)"
  shows "\<exists>data t. usage_loop threat_model items reason report_data s = (Ok data, t) \<and>
           list_all is_list_value (map snd data) \<and>
           t = s\<lparr>cur_risks := cur_risks t\<rparr> \<and>
           risks_extends (cur_risks s) (cur_risks t) \<and>
           fst ` set report_data \<subseteq> fst ` set data \<and>
           (\<forall>p \<in> fst ` set items. \<forall>alert_type r. classify_usage p = Some (alert_type, r) \<longrightarrow>
              r \<in> fst ` set data \<and>
              (\<forall>cat. threat_model alert_type = Some cat \<longrightarrow>
                 alert_type @ '': '' @ r \<in> set (messages (cur_risks t) cat)))"
  using assms
proof (induction items arbitrary: reason report_data s)
  case Nil
  then show ?case
    by (simp add: ret_def risks_extends_refl)
next
  case (Cons item items)
  obtain p usage where item: "item = (p, usage)"
    by (cases item)
  obtain a r where c: "classify_usage p = Some (a, r)"
    using classify_usage_total by blast
  define s1 where "s1 = s\<lparr>cur_risks := alert_user a threat_model r (cur_risks s)\<rparr>"
  from Cons.prems item obtain data1 where d1:
    "add_usage report_data r usage = Inr data1" "list_all is_list_value (map snd data1)"
    "fst ` set data1 = insert r (fst ` set report_data)"
    using add_usage_lists [of report_data usage r] by auto
  from Cons.prems have "list_all is_list_value (map snd items)"
    by simp
  from Cons.IH [OF this d1(2), of "Some r" s1]
  obtain data t where ih:
    "usage_loop threat_model items (Some r) data1 s1 = (Ok data, t)"
    "list_all is_list_value (map snd data)"
    "t = s1\<lparr>cur_risks := cur_risks t\<rparr>"
    "risks_extends (cur_risks s1) (cur_risks t)"
    "fst ` set data1 \<subseteq> fst ` set data"
    "\<forall>p \<in> fst ` set items. \<forall>alert_type r. classify_usage p = Some (alert_type, r) \<longrightarrow>
              r \<in> fst ` set data \<and>
              (\<forall>cat. threat_model alert_type = Some cat \<longrightarrow>
                 alert_type @ '': '' @ r \<in> set (messages (cur_risks t) cat))"
    by blast
  have run: "usage_loop threat_model (item # items) reason report_data s = (Ok data, t)"
    using c d1(1) ih(1) by (simp add: item prog_defs s1_def)
  have ext: "risks_extends (cur_risks s) (cur_risks t)"
    using ih(4) risks_extends_alert_user [of "cur_risks s" a threat_model r]
    by (auto simp add: s1_def intro: risks_extends_trans)
  have here: "\<forall>cat. threat_model a = Some cat \<longrightarrow> a @ '': '' @ r \<in> set (messages (cur_risks t) cat)"
  proof (intro allI impI)
    fix cat
    assume "threat_model a = Some cat"
    then have "a @ '': '' @ r \<in> set (messages (cur_risks s1) cat)"
      by (simp add: s1_def messages_alert_user)
    with ih(4) show "a @ '': '' @ r \<in> set (messages (cur_risks t) cat)"
      by (rule risks_extends_messages)
  qed
  have t: "t = s\<lparr>cur_risks := cur_risks t\<rparr>"
    by (subst ih(3)) (simp add: s1_def)
  have keys: "fst ` set report_data \<subseteq> fst ` set data" "r \<in> fst ` set data"
    using d1(3) ih(5) by auto
  show ?case
    apply (intro exI [of _ data] exI [of _ t] conjI)
         apply (rule run)
        apply (rule ih(2))
       apply (rule t)
      apply (rule ext)
     apply (rule keys(1))
    using c here keys(2) ih(6) apply (auto simp add: item)
    done
qed

section \<open>Version freshness\<close>

text \<open>
  C4, as stated, at a version info that has a tag and no upload date: the threat model
  knows the alert type \<open>old package\<close>, and yet \<^verbatim>\<open>analyze_version\<close> records no alert
  and writes no section; the stage fails with \<open>parse error\<close>.
\<close>

theorem analyze_version_unknown_date_counterexample:
  "sample_threat_model ''old package'' = Some ''undesirable'' \<and>
   map_of [(''tag'', PStr ''1.0'')] ''uploaded'' = None \<and>
   analyze_version sample_world sample_threat_model (PDict [(''tag'', PStr ''1.0'')]) start =
     (Ok ([], []), start\<lparr>stdout := [''[+] Checking version...'', ''FAILED [parse error]'']\<rparr>)"
  by (simp add: analyze_version_def prog_defs subscript_def start_def sample_threat_model_def)

text \<open>
  C4, amended. When the version info has an entry \<open>uploaded\<close> and
  \<^verbatim>\<open>datetime_delta\<close> returns a number of days \<open>d\<close>: the alert \<open>old package\<close> is recorded
  with the reason \<open>no release date\<close> if the entry is empty, with the reason
  \<open>d days old\<close> if the entry is not empty and \<open>d > 365\<close>, and no alert is recorded if
  the entry is not empty and \<open>d \<le> 365\<close>; in each case the version info is written to the
  section \<open>version\<close>. When the version info is not empty and has no entry
  \<open>uploaded\<close>, the stage fails with \<open>parse error\<close>: the risks and the report stay as
  they were.
\<close>

theorem analyze_version_old_package:
  "(subscript ver_info (PStr ''uploaded'') = Inr uploaded \<and>
    datetime_delta w uploaded = Inr (PInt d) \<longrightarrow>
      analyze_version w threat_model ver_info s =
        (Ok ((if \<not> truthy uploaded \<or> 365 < d
              then alert_user ''old package'' threat_model
                     (if \<not> truthy uploaded then ''no release date''
                      else string_of_int d @ '' days old'') (cur_risks s)
              else cur_risks s),
             AList.update ''version'' ver_info (cur_report s)),
         s\<lparr>stdout := stdout s @ [''[+] Checking version...'',
                                 ''OK ['' @ string_of_int d @ '' days old]''],
           cur_risks := (if \<not> truthy uploaded \<or> 365 < d
              then alert_user ''old package'' threat_model
                     (if \<not> truthy uploaded then ''no release date''
                      else string_of_int d @ '' days old'') (cur_risks s)
              else cur_risks s),
           cur_report := AList.update ''version'' ver_info (cur_report s)\<rparr>)) \<and>
   (truthy ver_info \<and> subscript ver_info (PStr ''uploaded'') = Inl (KeyError k) \<longrightarrow>
      analyze_version w threat_model ver_info s =
        (Ok (cur_risks s, cur_report s),
         s\<lparr>stdout := stdout s @ [''[+] Checking version...'', ''FAILED [parse error]'']\<rparr>))"
proof (intro conjI impI)
  assume a: "subscript ver_info (PStr ''uploaded'') = Inr uploaded \<and>
             datetime_delta w uploaded = Inr (PInt d)"
  then have "truthy ver_info"
    using subscript_found_truthy by blast
  with a show "analyze_version w threat_model ver_info s =
        (Ok ((if \<not> truthy uploaded \<or> 365 < d
              then alert_user ''old package'' threat_model
                     (if \<not> truthy uploaded then ''no release date''
                      else string_of_int d @ '' days old'') (cur_risks s)
              else cur_risks s),
             AList.update ''version'' ver_info (cur_report s)),
         s\<lparr>stdout := stdout s @ [''[+] Checking version...'',
                                 ''OK ['' @ string_of_int d @ '' days old]''],
           cur_risks := (if \<not> truthy uploaded \<or> 365 < d
              then alert_user ''old package'' threat_model
                     (if \<not> truthy uploaded then ''no release date''
                      else string_of_int d @ '' days old'') (cur_risks s)
              else cur_risks s),
           cur_report := AList.update ''version'' ver_info (cur_report s)\<rparr>)"
    by (simp add: analyze_version_def prog_defs py_gt_def)
next
  assume "truthy ver_info \<and> subscript ver_info (PStr ''uploaded'') = Inl (KeyError k)"
  then show "analyze_version w threat_model ver_info s =
        (Ok (cur_risks s, cur_report s),
         s\<lparr>stdout := stdout s @ [''[+] Checking version...'', ''FAILED [parse error]'']\<rparr>)"
    by (simp add: analyze_version_def prog_defs)
qed

theorem analyze_version_old_package_witness:
  "subscript (PDict [(''uploaded'', PStr ''2020-01-01'')]) (PStr ''uploaded'') = Inr (PStr ''2020-01-01'') \<and>
   datetime_delta (sample_world\<lparr>datetime_delta := (\<lambda>u. Inr (PInt 400))\<rparr>) (PStr ''2020-01-01'') = Inr (PInt 400) \<and>
   fst (analyze_version (sample_world\<lparr>datetime_delta := (\<lambda>u. Inr (PInt 400))\<rparr>) sample_threat_model
         (PDict [(''uploaded'', PStr ''2020-01-01'')]) start) =
     Ok ([(''undesirable'', [''old package: 400 days old''])],
         [(''version'', PDict [(''uploaded'', PStr ''2020-01-01'')])]) \<and>
   truthy (PDict [(''tag'', PStr ''1.0'')]) \<and>
   subscript (PDict [(''tag'', PStr ''1.0'')]) (PStr ''uploaded'') = Inl (KeyError (repr_str ''uploaded'')) \<and>
   fst (analyze_version sample_world sample_threat_model (PDict [(''tag'', PStr ''1.0'')]) start) =
     Ok ([], [])"
  using analyze_version_old_package [of "PDict [(''uploaded'', PStr ''2020-01-01'')]" "PStr ''2020-01-01''"
          "sample_world\<lparr>datetime_delta := (\<lambda>u. Inr (PInt 400))\<rparr>" 400 sample_threat_model start
          "repr_str ''uploaded''"]
        analyze_version_old_package [of "PDict [(''tag'', PStr ''1.0'')]" PNone
          sample_world 0 sample_threat_model start "repr_str ''uploaded''"]
  by (simp add: subscript_def sample_world_def sample_threat_model_def start_def alert_user_def
        string_of_int_def string_of_nat_numerals)

section \<open>Release history\<close>

text \<open>
  C6. When the registry returns a history that is not empty: with fewer than two
  releases the alert \<open>few versions or releases\<close> is recorded with the reason
  \<open>only 1 versions released\<close>, and the history is written to the section
  \<open>releases\<close>; with two releases or more, when the entry of the analyzed version gives
  \<open>days_since_last_release\<close> a number above 180, the alert
  \<open>version release after a long gap\<close> is recorded, and not the other one.
\<close>

theorem analyze_release_history_cadence:
  "(get_release_history pm_proxy pkg_name pkg_info = Inr (PDict history) \<and> history \<noteq> [] \<and>
    length (remdups (map fst history)) < 2 \<longrightarrow>
      analyze_release_history pm_proxy threat_model pkg_name ver_str pkg_info s =
        (Ok (alert_user ''few versions or releases'' threat_model ''only 1 versions released''
               (cur_risks s),
             AList.update ''releases'' (PDict history) (cur_report s)),
         s\<lparr>stdout := stdout s @ [''[+] Checking release history...'', ''OK [1 versions]''],
           cur_risks := alert_user ''few versions or releases'' threat_model
                          ''only 1 versions released'' (cur_risks s),
           cur_report := AList.update ''releases'' (PDict history) (cur_report s)\<rparr>)) \<and>
   (get_release_history pm_proxy pkg_name pkg_info = Inr (PDict history) \<and>
    2 \<le> length (remdups (map fst history)) \<and>
    subscript (PDict history) ver_str = Inr release \<and>
    subscript release (PStr ''days_since_last_release'') = Inr (PInt days) \<and> 180 < days \<longrightarrow>
      analyze_release_history pm_proxy threat_model pkg_name ver_str pkg_info s =
        (Ok (alert_user ''version release after a long gap'' threat_model
               (''version released after '' @ string_of_int days @ '' days'') (cur_risks s),
             AList.update ''releases'' (PDict history) (cur_report s)),
         s\<lparr>stdout := stdout s @ [''[+] Checking release history...'',
                 ''OK ['' @ string_of_nat (length (remdups (map fst history))) @ '' versions]''],
           cur_risks := alert_user ''version release after a long gap'' threat_model
               (''version released after '' @ string_of_int days @ '' days'') (cur_risks s),
           cur_report := AList.update ''releases'' (PDict history) (cur_report s)\<rparr>))"
proof (intro conjI impI)
  assume a: "get_release_history pm_proxy pkg_name pkg_info = Inr (PDict history) \<and> history \<noteq> [] \<and>
    length (remdups (map fst history)) < 2"
  then have "length (remdups (map fst history)) \<noteq> 0"
    by simp
  with a have n: "length (remdups (map fst history)) = 1"
    by linarith
  from a show "analyze_release_history pm_proxy threat_model pkg_name ver_str pkg_info s =
        (Ok (alert_user ''few versions or releases'' threat_model ''only 1 versions released''
               (cur_risks s),
             AList.update ''releases'' (PDict history) (cur_report s)),
         s\<lparr>stdout := stdout s @ [''[+] Checking release history...'', ''OK [1 versions]''],
           cur_risks := alert_user ''few versions or releases'' threat_model
                          ''only 1 versions released'' (cur_risks s),
           cur_report := AList.update ''releases'' (PDict history) (cur_report s)\<rparr>)"
    by (simp add: analyze_release_history_def prog_defs n string_of_nat_numerals)
next
  assume a: "get_release_history pm_proxy pkg_name pkg_info = Inr (PDict history) \<and>
    2 \<le> length (remdups (map fst history)) \<and>
    subscript (PDict history) ver_str = Inr release \<and>
    subscript release (PStr ''days_since_last_release'') = Inr (PInt days) \<and> 180 < days"
  then have "history \<noteq> []" "\<not> length (remdups (map fst history)) < 2" "days \<noteq> 0"
    by auto
  with a show "analyze_release_history pm_proxy threat_model pkg_name ver_str pkg_info s =
        (Ok (alert_user ''version release after a long gap'' threat_model
               (''version released after '' @ string_of_int days @ '' days'') (cur_risks s),
             AList.update ''releases'' (PDict history) (cur_report s)),
         s\<lparr>stdout := stdout s @ [''[+] Checking release history...'',
                 ''OK ['' @ string_of_nat (length (remdups (map fst history))) @ '' versions]''],
           cur_risks := alert_user ''version release after a long gap'' threat_model
               (''version released after '' @ string_of_int days @ '' days'') (cur_risks s),
           cur_report := AList.update ''releases'' (PDict history) (cur_report s)\<rparr>)"
    by (simp add: analyze_release_history_def prog_defs py_gt_def)
qed

theorem analyze_release_history_cadence_witness:
  "get_release_history sample_proxy (PStr ''pkg'') PNone =
     Inr (PDict [(''1.0'', PDict [(''days_since_last_release'', PNone)])]) \<and>
   fst (analyze_release_history sample_proxy sample_threat_model (PStr ''pkg'') (PStr ''1.0'') PNone start) =
     Ok ([(''undesirable'', [''few versions or releases: only 1 versions released''])],
         [(''releases'', PDict [(''1.0'', PDict [(''days_since_last_release'', PNone)])])]) \<and>
   get_release_history (sample_proxy\<lparr>get_release_history := (\<lambda>n i. Inr (PDict two_releases))\<rparr>)
     (PStr ''pkg'') PNone = Inr (PDict two_releases) \<and>
   2 \<le> length (remdups (map fst two_releases)) \<and>
   subscript (PDict two_releases) (PStr ''1.0'') = Inr (PDict [(''days_since_last_release'', PInt 200)]) \<and>
   fst (analyze_release_history (sample_proxy\<lparr>get_release_history := (\<lambda>n i. Inr (PDict two_releases))\<rparr>)
         [''version release after a long gap'' \<mapsto> ''suspicious''] (PStr ''pkg'') (PStr ''1.0'') PNone start) =
     Ok ([(''suspicious'', [''version release after a long gap: version released after 200 days''])],
         [(''releases'', PDict two_releases)])"
  using analyze_release_history_cadence [of sample_proxy "PStr ''pkg''" PNone
          "[(''1.0'', PDict [(''days_since_last_release'', PNone)])]" sample_threat_model "PStr ''1.0''" start
          PNone 0]
        analyze_release_history_cadence [of "sample_proxy\<lparr>get_release_history := (\<lambda>n i. Inr (PDict two_releases))\<rparr>"
          "PStr ''pkg''" PNone two_releases "[''version release after a long gap'' \<mapsto> ''suspicious'']"
          "PStr ''1.0''" start "PDict [(''days_since_last_release'', PInt 200)]" 200]
  by (simp add: sample_proxy_def sample_threat_model_def start_def alert_user_def subscript_def
        two_releases_def string_of_int_def string_of_nat.simps digit_char_def)

section \<open>Homepage\<close>

text \<open>
  C7. When the registry gives a homepage that starts with \<open>http://\<close>, and
  \<^verbatim>\<open>__parse_url\<close> finds the scheme \<open>http\<close> in it, the message
  \<open>invalid or no homepage: insecure webpage\<close> is recorded under the category of the
  alert type, right after the messages that were there, whatever the probes of the site
  return or raise afterwards.
\<close>

theorem analyze_homepage_insecure:
  assumes "get_homepage pm_proxy pkg_name ver_str pkg_info = Inr (PStr url)"
      and "prefix ''http://'' url"
      and "parse_url w (PStr url) = Inr parsed"
      and "scheme parsed = ''http''"
      and "threat_model ''invalid or no homepage'' = Some cat"
  shows "\<exists>s' later.
           analyze_homepage w pm_proxy threat_model pkg_name ver_str pkg_info s =
             (Ok (cur_risks s', cur_report s'), s') \<and>
           messages (cur_risks s') cat =
             messages (cur_risks s) cat @ [''invalid or no homepage: insecure webpage''] @ later"
proof -
  from assms(2) have u: "url \<noteq> []"
    by auto
  show ?thesis
  proof (cases "check_site_exist w (PStr url)")
    case (Inl e)
    with assms u show ?thesis
      by (simp add: analyze_homepage_def prog_defs messages_alert_user)
  next
    case (Inr site)
    obtain valid_site reason where site: "site = (valid_site, reason)"
      by (cases site)
    show ?thesis
    proof (cases "truthy valid_site")
      case False
      with assms u Inr site show ?thesis
        by (simp add: analyze_homepage_def prog_defs messages_alert_user)
    next
      case True
      show ?thesis
      proof (cases "check_domain_popular w (PStr url)")
        case (Inl e)
        with assms u Inr site True show ?thesis
          by (simp add: analyze_homepage_def prog_defs messages_alert_user)
      next
        case popular: (Inr popular)
        with assms u Inr site True show ?thesis
          by (cases "truthy popular")
             (simp_all add: analyze_homepage_def prog_defs messages_alert_user)
      qed
    qed
  qed
qed

theorem analyze_homepage_insecure_witness:
  "get_homepage sample_proxy (PStr ''pkg'') (PStr ''1.0'') PNone = Inr (PStr ''http://example.org'') \<and>
   prefix ''http://'' ''http://example.org'' \<and>
   parse_url sample_world (PStr ''http://example.org'') = Inr (ParsedUrl ''http'') \<and>
   scheme (ParsedUrl ''http'') = ''http'' \<and>
   sample_threat_model ''invalid or no homepage'' = Some ''undesirable'' \<and>
   (\<exists>s' later.
      analyze_homepage sample_world sample_proxy sample_threat_model (PStr ''pkg'') (PStr ''1.0'') PNone start =
        (Ok (cur_risks s', cur_report s'), s') \<and>
      messages (cur_risks s') ''undesirable'' =
        messages (cur_risks start) ''undesirable'' @ [''invalid or no homepage: insecure webpage''] @ later)"
proof -
  have h: "get_homepage sample_proxy (PStr ''pkg'') (PStr ''1.0'') PNone = Inr (PStr ''http://example.org'')"
    "prefix ''http://'' ''http://example.org''"
    "parse_url sample_world (PStr ''http://example.org'') = Inr (ParsedUrl ''http'')"
    "scheme (ParsedUrl ''http'') = ''http''"
    "sample_threat_model ''invalid or no homepage'' = Some ''undesirable''"
    by (simp_all add: sample_proxy_def sample_world_def sample_threat_model_def)
  from analyze_homepage_insecure [of sample_proxy "PStr ''pkg''" "PStr ''1.0''" PNone
         "''http://example.org''" sample_world "ParsedUrl ''http''" sample_threat_model
         "''undesirable''" start] h
  show ?thesis
    by simp
qed

section \<open>Static API usage: the classification\<close>

text \<open>
  C1 at a usage record with the tags \<open>SOURCE_OBFUSCATION\<close> and \<open>SINK_NETWORK\<close>. The
  sixth test of the chain is a string literal, which is always true, so the branches
  after it are never taken: \<open>SOURCE_OBFUSCATION\<close>, \<open>SOURCE_SETTINGS\<close> and
  \<open>SOURCE_USER_INPUT\<close> all get the alert type \<open>generates new code at runtime\<close> with
  the reason \<open>spawns new processes in background\<close>. The threat model has a category for
  \<open>accesses obfuscated (hidden) code\<close>, and nothing is recorded under it.
\<close>

theorem analyze_apis_misclassifies:
  "classify_usage ''SOURCE_OBFUSCATION'' =
     Some (''generates new code at runtime'', ''spawns new processes in background'') \<and>
   classify_usage ''SOURCE_SETTINGS'' =
     Some (''generates new code at runtime'', ''spawns new processes in background'') \<and>
   classify_usage ''SOURCE_USER_INPUT'' =
     Some (''generates new code at runtime'', ''spawns new processes in background'') \<and>
   sample_threat_model ''accesses obfuscated (hidden) code'' = Some ''vulnerable'' \<and>
   fst (analyze_apis sample_world sample_threat_model ''pypi'' (PStr ''pkg'') (PStr ''1.0'')
         (PStr ''/tmp/pkg-1.0.tar.gz'') start) =
     Ok ([(''malicious'',
           [''generates new code at runtime: spawns new processes in background'',
            ''communicates with external network: sends data over the network %s''])],
         [(''permissions'',
           PDict [(''spawns new processes in background'', PList [PStr ''a.py:1'']),
                  (''sends data over the network %s'', PList [PStr ''b.py:2''])])])"
  by (simp add: classify_usage_def analyze_apis_def prog_defs sample_defs py_add_str_def
        py_items_def add_usage_def alert_user_def string_of_nat.simps digit_char_def)

section \<open>The order of the stages\<close>

text \<open>
  C3, as stated, on the sample run: the claim puts the check of the source repository
  before the check of the downloads. In the output of the program the first line of
  the download check comes before the first line of the repository check, and not the
  other way round.
\<close>

theorem repo_before_downloads_counterexample:
  "precedes ''[+] Checking downloads...'' ''[+] Checking repo...''
     (headers (stdout (snd (main sample_world [''main.py'', ''pypi'', ''pkg''] start)))) \<and>
   \<not> precedes ''[+] Checking repo...'' ''[+] Checking downloads...''
     (headers (stdout (snd (main sample_world [''main.py'', ''pypi'', ''pkg''] start))))"
proof -
  obtain threat_model s1 where p:
    "prepare sample_world [''main.py'', ''pypi'', ''pkg''] start =
       (Ok (threat_model, ''pypi'', sample_proxy, PStr ''pkg'', PStr ''1.0'',
            PDict [(''info'', PDict [(''name'', PStr ''pkg'')])], sample_ver_info), s1)"
    "headers (stdout s1) = []"
    using prepare_sample by (auto simp add: headers_def start_def)
  obtain rest where rest:
    "headers (stdout (snd (pipeline sample_world threat_model ''pypi'' sample_proxy (PStr ''pkg'')
        (PStr ''1.0'') (PDict [(''info'', PDict [(''name'', PStr ''pkg'')])]) sample_ver_info s1))) =
       headers (stdout s1) @
       [''[+] Checking version...'', ''[+] Checking release history...'',
        ''[+] Checking author...'', ''[+] Checking readme...'',
        ''[+] Checking homepage...'', ''[+] Checking downloads...'',
        ''[+] Checking repo...'', ''[+] Checking for CVEs...''] @ rest"
    "rest = [] \<or> rest = [''[+] Analyzing APIs...'']"
    using pipeline_headers by blast
  obtain r t where t: "pipeline sample_world threat_model ''pypi'' sample_proxy (PStr ''pkg'')
        (PStr ''1.0'') (PDict [(''info'', PDict [(''name'', PStr ''pkg'')])]) sample_ver_info s1 = (r, t)"
    by (cases "pipeline sample_world threat_model ''pypi'' sample_proxy (PStr ''pkg'')
        (PStr ''1.0'') (PDict [(''info'', PDict [(''name'', PStr ''pkg'')])]) sample_ver_info s1")
  from rest(1) t p(2) have h: "headers (stdout t) =
       [''[+] Checking version...'', ''[+] Checking release history...'',
        ''[+] Checking author...'', ''[+] Checking readme...'',
        ''[+] Checking homepage...'', ''[+] Checking downloads...'',
        ''[+] Checking repo...'', ''[+] Checking for CVEs...''] @ rest"
    by simp
  have m: "main sample_world [''main.py'', ''pypi'', ''pkg''] start =
          (case r of Ok u \<Rightarrow> finish sample_world ''pypi'' (PStr ''pkg'') (PStr ''1.0'') t
                   | Raise e \<Rightarrow> (Raise e, t))"
    unfolding main_def bnd_def p(1) by (simp add: t split: result.splits)
  have "headers (stdout (snd (main sample_world [''main.py'', ''pypi'', ''pkg''] start))) =
          headers (stdout t)"
    unfolding m by (cases r) (simp_all add: finish_effect)
  then have out: "headers (stdout (snd (main sample_world [''main.py'', ''pypi'', ''pkg''] start))) =
       [''[+] Checking version...'', ''[+] Checking release history...'',
        ''[+] Checking author...'', ''[+] Checking readme...'',
        ''[+] Checking homepage...'', ''[+] Checking downloads...'',
        ''[+] Checking repo...'', ''[+] Checking for CVEs...''] @ rest"
    using h by simp
  from rest(2) show ?thesis
  proof
    assume "rest = []"
    then show ?thesis
      unfolding out by (simp add: precedes_def)
  next
    assume "rest = [''[+] Analyzing APIs...'']"
    then show ?thesis
      unfolding out by (simp add: precedes_def)
  qed
qed

text \<open>
  C3, amended. Whatever the collaborators return or raise, the stages start in the
  order: version, release history, author, readme, homepage, downloads, repository,
  known vulnerabilities, and then, when it runs at all, the analysis of the API usage.
  The download check runs before the repository check.
\<close>

theorem pipeline_order:
  "\<exists>rest. headers (stdout (snd (pipeline w threat_model pm_name pm_proxy pkg_name ver_str
                                    pkg_info ver_info s))) =
            headers (stdout s) @
            [''[+] Checking version...'', ''[+] Checking release history...'',
             ''[+] Checking author...'', ''[+] Checking readme...'',
             ''[+] Checking homepage...'', ''[+] Checking downloads...'',
             ''[+] Checking repo...'', ''[+] Checking for CVEs...''] @ rest \<and>
          (rest = [] \<or> rest = [''[+] Analyzing APIs...''])"
  by (rule pipeline_headers)

section \<open>A run without the archive\<close>

text \<open>
  C2 on a run in which the preparation succeeds and the download of the archive times
  out. The failure is caught and printed as \<open>FAILED [timeout]\<close>, which leaves the
  variable \<^verbatim>\<open>filepath\<close> without a value; the test \<^verbatim>\<open>if filepath:\<close> then raises
  \<^verbatim>\<open>NameError\<close>, which nothing catches: the program ends with status 1 and has
  written no report.
\<close>

theorem main_crashes_without_archive:
  "subscript sample_ver_info (PStr ''url'') = Inr (PStr ''https://files.example/pkg-1.0.tar.gz'') \<and>
   download_file offline_world (PStr ''https://files.example/pkg-1.0.tar.gz'') =
     Inl (Exception ''timeout'') \<and>
   fst (main offline_world [''main.py'', ''pypi'', ''pkg''] start) =
     Raise (NameError (''name '' @ quoted ''filepath'' @ '' is not defined'')) \<and>
   exit_code (fst (main offline_world [''main.py'', ''pypi'', ''pkg''] start)) = 1 \<and>
   files (snd (main offline_world [''main.py'', ''pypi'', ''pkg''] start)) = [] \<and>
   last (stdout (snd (main offline_world [''main.py'', ''pypi'', ''pkg''] start))) =
     ''FAILED [timeout]''"
proof -
  obtain threat_model s1 where p:
    "prepare offline_world [''main.py'', ''pypi'', ''pkg''] start =
       (Ok (threat_model, ''pypi'', sample_proxy, PStr ''pkg'', PStr ''1.0'',
            PDict [(''info'', PDict [(''name'', PStr ''pkg'')])], sample_ver_info), s1)"
    "files s1 = []" "var_filepath s1 = None"
    using prepare_offline by (auto simp add: start_def)
  have u: "subscript sample_ver_info (PStr ''url'') = Inr (PStr ''https://files.example/pkg-1.0.tar.gz'')"
    by (simp add: subscript_def sample_ver_info_def)
  have d: "download_file offline_world (PStr ''https://files.example/pkg-1.0.tar.gz'') =
     Inl (Exception ''timeout'')"
    by (simp add: offline_world_def)
  from u d have "subscript sample_ver_info (PStr ''url'') = Inl (Exception ''timeout'') \<or>
      (\<exists>url. subscript sample_ver_info (PStr ''url'') = Inr url \<and>
         download_file offline_world url = Inl (Exception ''timeout'') \<and>
         is_Exception (Exception ''timeout''))"
    by simp
  from pipeline_without_archive [OF p(3) this]
  have "\<exists>t. pipeline offline_world threat_model ''pypi'' sample_proxy (PStr ''pkg'') (PStr ''1.0'')
       (PDict [(''info'', PDict [(''name'', PStr ''pkg'')])]) sample_ver_info s1 =
       (Raise (NameError (''name '' @ quoted ''filepath'' @ '' is not defined'')), t) \<and>
       files t = files s1 \<and> last (stdout t) = ''FAILED [timeout]''"
    by simp
  then obtain t where t:
    "pipeline offline_world threat_model ''pypi'' sample_proxy (PStr ''pkg'') (PStr ''1.0'')
       (PDict [(''info'', PDict [(''name'', PStr ''pkg'')])]) sample_ver_info s1 =
       (Raise (NameError (''name '' @ quoted ''filepath'' @ '' is not defined'')), t)"
    "files t = files s1" "last (stdout t) = ''FAILED [timeout]''"
    by blast
  have m: "main offline_world [''main.py'', ''pypi'', ''pkg''] start =
          (Raise (NameError (''name '' @ quoted ''filepath'' @ '' is not defined'')), t)"
    unfolding main_def bnd_def p(1) by (simp add: t(1))
  show ?thesis
    unfolding m using t(2,3) p(2) u d by simp
qed


section \<open>Static API usage: the network sink\<close>

text \<open>
  C10. When the analysis of a supported ecosystem succeeds and the usage record, whose
  payloads are lists, has the tag \<open>SINK_NETWORK\<close>: the message recorded under the
  category of \<open>communicates with external network\<close> is the text
  \<open>communicates with external network: sends data over the network %s\<close>, and the section
  \<open>permissions\<close> has the key \<open>sends data over the network %s\<close>, both with the two
  characters \<open>%s\<close> as they are in the source.
\<close>

theorem analyze_apis_network_literal:
  assumes "pm_name = ''pypi'' \<or> pm_name = ''npm''"
      and "get_static_proxy_for_language w (if pm_name = ''pypi'' then python else javascript) =
             Inr static"
      and "astgen static (PStr path) (PStr (path @ ''.out''))
             (if pm_name = ''pypi'' then ''config/astgen_python_smt.config''
              else ''config/astgen_javascript_smt.config'') pkg_name ver_str = Inr ()"
      and "path_exists w (PStr (path @ ''.out'')) = Inr True"
      and "parse_api_usage w pm_name (PStr (path @ ''.out'')) = Inr (PDict perms)"
      and "''SINK_NETWORK'' \<in> fst ` set perms"
      and "list_all is_list_value (map snd perms)"
      and "threat_model ''communicates with external network'' = Some cat"
  shows "\<exists>t data.
           analyze_apis w threat_model pm_name pkg_name ver_str (PStr path) s =
             (Ok (cur_risks t, cur_report t), t) \<and>
           ''communicates with external network: sends data over the network %s''
             \<in> set (messages (cur_risks t) cat) \<and>
           map_of (cur_report t) ''permissions'' = Some (PDict data) \<and>
           ''sends data over the network %s'' \<in> fst ` set data"
proof -
  define s0 where "s0 = s\<lparr>stdout := stdout s @ [''[+] Analyzing APIs...'']\<rparr>"
  have c: "classify_usage ''SINK_NETWORK'' =
             Some (''communicates with external network'', ''sends data over the network %s'')"
    by (simp add: classify_usage_def)
  from usage_loop_records [OF assms(7), of "[]" threat_model None s0]
  obtain data t where l:
    "usage_loop threat_model perms None [] s0 = (Ok data, t)"
    "t = s0\<lparr>cur_risks := cur_risks t\<rparr>"
    "\<forall>p \<in> fst ` set perms. \<forall>alert_type r. classify_usage p = Some (alert_type, r) \<longrightarrow>
              r \<in> fst ` set data \<and>
              (\<forall>cat. threat_model alert_type = Some cat \<longrightarrow>
                 alert_type @ '': '' @ r \<in> set (messages (cur_risks t) cat))"
    by auto
  from l(3) assms(6) c assms(8) have found:
    "''sends data over the network %s'' \<in> fst ` set data"
    "''communicates with external network: sends data over the network %s''
       \<in> set (messages (cur_risks t) cat)"
    by fastforce+
  from assms(6) have ne: "perms \<noteq> []"
    by auto
  define t' where "t' = t\<lparr>stdout := stdout t @
      [''OK ['' @ string_of_nat (length (remdups (map fst perms))) @ '' analyzed]''],
      cur_report := AList.update ''permissions'' (PDict data) (cur_report t)\<rparr>"
  have "analyze_apis w threat_model pm_name pkg_name ver_str (PStr path) s =
          (Ok (cur_risks t', cur_report t'), t')"
    using assms(1-5) ne l(1)
    by (auto simp add: analyze_apis_def prog_defs py_add_str_def py_items_def s0_def t'_def)
  moreover have "map_of (cur_report t') ''permissions'' = Some (PDict data)"
    by (simp add: t'_def update_conv')
  moreover have "''communicates with external network: sends data over the network %s''
       \<in> set (messages (cur_risks t') cat)"
    using found(2) by (simp add: t'_def)
  ultimately show ?thesis
    using found(1) by blast
qed

theorem analyze_apis_network_literal_witness:
  "(''pypi'' = ''pypi'' \<or> ''pypi'' = ''npm'') \<and>
   get_static_proxy_for_language sample_world (if ''pypi'' = ''pypi'' then python else javascript) =
     Inr (StaticProxy (\<lambda>inpath outfile configpath pkg_name pkg_version. Inr ())) \<and>
   path_exists sample_world (PStr (''/tmp/pkg-1.0.tar.gz'' @ ''.out'')) = Inr True \<and>
   parse_api_usage sample_world ''pypi'' (PStr (''/tmp/pkg-1.0.tar.gz'' @ ''.out'')) =
     Inr (PDict [(''SOURCE_OBFUSCATION'', PList [PStr ''a.py:1'']),
                 (''SINK_NETWORK'', PList [PStr ''b.py:2''])]) \<and>
   ''SINK_NETWORK'' \<in> fst ` set [(''SOURCE_OBFUSCATION'', PList [PStr ''a.py:1'']),
                                  (''SINK_NETWORK'', PList [PStr ''b.py:2''])] \<and>
   list_all is_list_value (map snd [(''SOURCE_OBFUSCATION'', PList [PStr ''a.py:1'']),
                                    (''SINK_NETWORK'', PList [PStr ''b.py:2''])]) \<and>
   sample_threat_model ''communicates with external network'' = Some ''malicious'' \<and>
   (\<exists>t data.
      analyze_apis sample_world sample_threat_model ''pypi'' (PStr ''pkg'') (PStr ''1.0'')
        (PStr ''/tmp/pkg-1.0.tar.gz'') start = (Ok (cur_risks t, cur_report t), t) \<and>
      ''communicates with external network: sends data over the network %s''
        \<in> set (messages (cur_risks t) ''malicious'') \<and>
      map_of (cur_report t) ''permissions'' = Some (PDict data) \<and>
      ''sends data over the network %s'' \<in> fst ` set data)"
  using analyze_apis_network_literal [where pm_name = "''pypi''" and w = sample_world
          and static = "StaticProxy (\<lambda>inpath outfile configpath pkg_name pkg_version. Inr ())"
          and path = "''/tmp/pkg-1.0.tar.gz''" and pkg_name = "PStr ''pkg''"
          and ver_str = "PStr ''1.0''"
          and perms = "[(''SOURCE_OBFUSCATION'', PList [PStr ''a.py:1'']),
                        (''SINK_NETWORK'', PList [PStr ''b.py:2''])]"
          and threat_model = sample_threat_model and cat = "''malicious''" and s = start]
  by (simp add: sample_world_def sample_perms_def sample_threat_model_def)

section \<open>Failures inside a stage\<close>

text \<open>
  Each lemma of this section follows one stage function to a statement that raises and
  gives the pair that the function returns: the risks with the alerts recorded before
  that statement, and the report.
\<close>

lemma version_fails_early:
  "(\<not> truthy ver_info \<or>
    raises (subscript ver_info (PStr ''uploaded'')) \<or>
    (subscript ver_info (PStr ''uploaded'') = Inr uploaded \<and>
     (raises (datetime_delta w uploaded) \<or>
      (datetime_delta w uploaded = Inr days \<and> truthy uploaded \<and> raises (py_gt days 365)))) \<longrightarrow>
    fst (analyze_version w threat_model ver_info s) = Ok (cur_risks s, cur_report s))"
  by (cases "truthy ver_info")
     (auto simp add: analyze_version_def prog_defs raises_iff)

lemma version_fails_late:
  "(subscript ver_info (PStr ''uploaded'') = Inr uploaded \<and>
    datetime_delta w uploaded = Inr days \<and> \<not> truthy uploaded \<and> raises (fmt_d days) \<longrightarrow>
    fst (analyze_version w threat_model ver_info s) =
      Ok (alert_user ''old package'' threat_model ''no release date'' (cur_risks s), cur_report s))"
  using subscript_found_truthy [of ver_info "''uploaded''" uploaded]
  by (auto simp add: analyze_version_def prog_defs raises_iff)

lemma release_history_fails:
  "(raises (get_release_history pm_proxy pkg_name pkg_info) \<or>
    (get_release_history pm_proxy pkg_name pkg_info = Inr history \<and> (\<not> truthy history \<or> raises (py_len history))) \<longrightarrow>
    fst (analyze_release_history pm_proxy threat_model pkg_name ver_str pkg_info s) = Ok (cur_risks s, cur_report s))"
  by (cases "truthy history")
     (auto simp add: analyze_release_history_def prog_defs raises_iff)

lemma release_history_goes_on:
  "(get_release_history pm_proxy pkg_name pkg_info = Inr history \<and> truthy history \<and>
    py_len history = Inr n \<and> 2 \<le> n \<and>
    (raises (subscript history ver_str) \<or>
     (subscript history ver_str = Inr release \<and>
      (raises (subscript release (PStr ''days_since_last_release'')) \<or>
       (subscript release (PStr ''days_since_last_release'') = Inr days \<and> truthy days \<and>
        raises (py_gt days 180))))) \<longrightarrow>
    fst (analyze_release_history pm_proxy threat_model pkg_name ver_str pkg_info s) =
      Ok (cur_risks s, AList.update ''releases'' history (cur_report s)))"
  using subscript_error_is_Exception [of history ver_str]
        subscript_error_is_Exception [of release "PStr ''days_since_last_release''"]
  by (auto simp add: analyze_release_history_def prog_defs raises_iff py_gt_def not_comparable_def
           split: option.splits)

lemma author_fails:
  "(raises (get_author pm_proxy pkg_name ver_str pkg_info ver_info) \<or>
    (get_author pm_proxy pkg_name ver_str pkg_info ver_info = Inr author_info \<and>
     (\<not> truthy author_info \<or>
      (\<exists>e. subscript author_info (PStr ''email'') = Inl e \<and> \<not> is_KeyError e) \<or>
      (subscript author_info (PStr ''email'') = Inr email \<and>
       raises (check_email_address w email)) \<or>
      ((\<exists>e. subscript author_info (PStr ''email'') = Inl e \<and> is_KeyError e) \<and>
       raises (check_email_address w PNone)))) \<longrightarrow>
    fst (analyze_author w pm_proxy threat_model pkg_name ver_str pkg_info ver_info s) = Ok (cur_risks s, cur_report s))"
  by (cases "truthy author_info")
     (auto simp add: analyze_author_def prog_defs raises_iff)

lemma author_goes_on:
  "(get_author pm_proxy pkg_name ver_str pkg_info ver_info = Inr author_info \<and> truthy author_info \<and>
    (\<exists>e. subscript author_info (PStr ''email'') = Inl e \<and> is_KeyError e) \<and>
    check_email_address w PNone = Inr (valid, valid_with_dns) \<and>
    (\<not> truthy valid \<or> \<not> truthy valid_with_dns) \<longrightarrow>
    fst (analyze_author w pm_proxy threat_model pkg_name ver_str pkg_info ver_info s) =
      Ok (alert_user ''invalid or no author email (2FA not enabled)'' threat_model ''no email''
            (cur_risks s),
          AList.update ''author'' author_info (cur_report s)))"
  by (auto simp add: analyze_author_def prog_defs)

lemma readme_fails_early:
  "(raises (get_description pm_proxy pkg_name ver_str pkg_info) \<or>
    (get_description pm_proxy pkg_name ver_str pkg_info = Inr descr \<and> truthy descr \<and> raises (py_len descr)) \<longrightarrow>
    fst (analyze_readme pm_proxy threat_model pkg_name ver_str pkg_info s) = Ok (cur_risks s, cur_report s))"
  by (auto simp add: analyze_readme_def prog_defs raises_iff)

lemma readme_fails_late:
  "(get_description pm_proxy pkg_name ver_str pkg_info = Inr descr \<and> \<not> truthy descr \<and> raises (py_len descr) \<longrightarrow>
    fst (analyze_readme pm_proxy threat_model pkg_name ver_str pkg_info s) =
      Ok (alert_user ''no or insufficient readme'' threat_model ''no description'' (cur_risks s),
          cur_report s))"
  by (auto simp add: analyze_readme_def prog_defs raises_iff)

lemma homepage_fails_first:
  "(raises (get_homepage pm_proxy pkg_name ver_str pkg_info) \<longrightarrow>
    fst (analyze_homepage w pm_proxy threat_model pkg_name ver_str pkg_info s) = Ok (cur_risks s, cur_report s))"
  by (auto simp add: analyze_homepage_def prog_defs raises_iff)

lemma homepage_fails_parsing:
  "(get_homepage pm_proxy pkg_name ver_str pkg_info = Inr url \<and> raises (parse_url w url) \<longrightarrow>
    fst (analyze_homepage w pm_proxy threat_model pkg_name ver_str pkg_info s) =
      Ok (if \<not> truthy url then alert_user ''invalid or no homepage'' threat_model ''no homepage'' (cur_risks s)
          else cur_risks s,
          cur_report s))"
  by (auto simp add: analyze_homepage_def prog_defs raises_iff)

lemma homepage_fails_probing:
  "(get_homepage pm_proxy pkg_name ver_str pkg_info = Inr url \<and> parse_url w url = Inr parsed \<and>
    (raises (check_site_exist w url) \<or>
     (check_site_exist w url = Inr (valid_site, reason) \<and> truthy valid_site \<and>
      raises (check_domain_popular w url))) \<longrightarrow>
    fst (analyze_homepage w pm_proxy threat_model pkg_name ver_str pkg_info s) =
      Ok ((if scheme parsed \<noteq> ''https''
           then alert_user ''invalid or no homepage'' threat_model ''insecure webpage''
           else id)
            (if \<not> truthy url then alert_user ''invalid or no homepage'' threat_model ''no homepage'' (cur_risks s)
             else cur_risks s),
          cur_report s))"
  by (auto simp add: analyze_homepage_def prog_defs raises_iff)

lemma downloads_fails_early:
  "(raises (get_downloads pm_proxy pkg_name) \<or>
    (get_downloads pm_proxy pkg_name = Inr downloads \<and> raises (py_lt downloads 1000)) \<longrightarrow>
    fst (analyze_downloads w pm_proxy threat_model pkg_name s) = Ok (cur_risks s, cur_report s))"
  by (auto simp add: analyze_downloads_def prog_defs raises_iff)

lemma downloads_fails_late:
  "(get_downloads pm_proxy pkg_name = Inr downloads \<and> py_lt downloads 1000 = Inr few \<and>
    fmt_d downloads = Inr shown \<and> raises (human_format w downloads) \<longrightarrow>
    fst (analyze_downloads w pm_proxy threat_model pkg_name s) =
      Ok (if few
          then alert_user ''few downloads'' threat_model (''only '' @ shown @ '' weekly downloads'')
                 (cur_risks s)
          else cur_risks s,
          cur_report s))"
  by (auto simp add: analyze_downloads_def prog_defs raises_iff)

lemma repo_fails:
  "(raises (get_repo pm_proxy pkg_name ver_str pkg_info ver_info) \<or>
    (get_repo pm_proxy pkg_name ver_str pkg_info ver_info = Inr repo \<and> truthy repo \<and> raises (startswith repo popular_hosting_services)) \<or>
    (get_repo pm_proxy pkg_name ver_str pkg_info ver_info = Inr repo \<and> \<not> truthy repo \<and>
     (raises (get_homepage pm_proxy pkg_name ver_str pkg_info) \<or>
      (get_homepage pm_proxy pkg_name ver_str pkg_info = Inr homepage \<and> truthy homepage \<and> raises (startswith homepage popular_hosting_services)) \<or>
      (get_homepage pm_proxy pkg_name ver_str pkg_info = Inr homepage \<and>
       (\<not> truthy homepage \<or> startswith homepage popular_hosting_services = Inr False) \<and>
       (raises (get_download_url pm_proxy pkg_name ver_str pkg_info) \<or>
        (get_download_url pm_proxy pkg_name ver_str pkg_info = Inr download_url \<and> truthy download_url \<and>
         raises (startswith download_url popular_hosting_services)))))) \<longrightarrow>
    fst (analyze_repo pm_proxy threat_model pkg_name ver_str pkg_info ver_info s) = Ok (cur_risks s, cur_report s))"
  by (auto simp add: analyze_repo_def hosted_or_none_def prog_defs raises_iff)

lemma cves_fails:
  "(raises (get_pkgver_vulns w pm_name pkg_name ver_str) \<or>
    (get_pkgver_vulns w pm_name pkg_name ver_str = Inr vuln_list \<and> truthy vuln_list \<and> raises (vuln_ids vuln_list)) \<longrightarrow>
    fst (analyze_cves w threat_model pm_name pkg_name ver_str s) = Ok (cur_risks s, cur_report s))"
  by (auto simp add: analyze_cves_def prog_defs raises_iff)

lemma apis_fails_early:
  "((pm_name \<noteq> ''pypi'' \<and> pm_name \<noteq> ''npm'') \<or>
    ((pm_name = ''pypi'' \<or> pm_name = ''npm'') \<and>
     (raises (get_static_proxy_for_language w (if pm_name = ''pypi'' then python else javascript)) \<or>
      (get_static_proxy_for_language w (if pm_name = ''pypi'' then python else javascript) = Inr static \<and>
       (raises (py_add_str filepath ''.out'') \<or>
        (py_add_str filepath ''.out'' = Inr outfile \<and>
         (raises (astgen static filepath outfile
           (if pm_name = ''pypi'' then ''config/astgen_python_smt.config''
            else ''config/astgen_javascript_smt.config'') pkg_name ver_str) \<or>
          (astgen static filepath outfile
           (if pm_name = ''pypi'' then ''config/astgen_python_smt.config''
            else ''config/astgen_javascript_smt.config'') pkg_name ver_str = Inr () \<and>
           (raises (path_exists w outfile) \<or> path_exists w outfile = Inr False \<or>
            (path_exists w outfile = Inr True \<and>
             (raises (parse_api_usage w pm_name outfile) \<or>
              (parse_api_usage w pm_name outfile = Inr perms \<and>
               (\<not> truthy perms \<or> raises (py_items perms))))))))))))) \<longrightarrow>
    fst (analyze_apis w threat_model pm_name pkg_name ver_str filepath s) = Ok (cur_risks s, cur_report s))"
proof
  let ?lang = "if pm_name = ''pypi'' then python else javascript"
  let ?conf = "if pm_name = ''pypi'' then ''config/astgen_python_smt.config''
               else ''config/astgen_javascript_smt.config''"
  assume h: "(pm_name \<noteq> ''pypi'' \<and> pm_name \<noteq> ''npm'') \<or>
    ((pm_name = ''pypi'' \<or> pm_name = ''npm'') \<and>
     (raises (get_static_proxy_for_language w (if pm_name = ''pypi'' then python else javascript)) \<or>
      (get_static_proxy_for_language w (if pm_name = ''pypi'' then python else javascript) = Inr static \<and>
       (raises (py_add_str filepath ''.out'') \<or>
        (py_add_str filepath ''.out'' = Inr outfile \<and>
         (raises (astgen static filepath outfile
           (if pm_name = ''pypi'' then ''config/astgen_python_smt.config''
            else ''config/astgen_javascript_smt.config'') pkg_name ver_str) \<or>
          (astgen static filepath outfile
           (if pm_name = ''pypi'' then ''config/astgen_python_smt.config''
            else ''config/astgen_javascript_smt.config'') pkg_name ver_str = Inr () \<and>
           (raises (path_exists w outfile) \<or> path_exists w outfile = Inr False \<or>
            (path_exists w outfile = Inr True \<and>
             (raises (parse_api_usage w pm_name outfile) \<or>
              (parse_api_usage w pm_name outfile = Inr perms \<and>
               (\<not> truthy perms \<or> raises (py_items perms)))))))))))))"
  show "fst (analyze_apis w threat_model pm_name pkg_name ver_str filepath s) =
          Ok (cur_risks s, cur_report s)"
  proof (cases "pm_name = ''pypi'' \<or> pm_name = ''npm''")
    case False
    then show ?thesis
      by (simp add: analyze_apis_def prog_defs)
  next
    case pm: True
    show ?thesis
    proof (cases "get_static_proxy_for_language w ?lang")
      case (Inl e)
      with pm show ?thesis
        by (auto simp add: analyze_apis_def prog_defs split: if_splits)
    next
      case st: (Inr static')
      show ?thesis
      proof (cases "py_add_str filepath ''.out''")
        case (Inl e)
        with pm st show ?thesis
          by (auto simp add: analyze_apis_def prog_defs split: if_splits)
      next
        case out: (Inr outfile')
        show ?thesis
        proof (cases "astgen static' filepath outfile' ?conf pkg_name ver_str")
          case (Inl e)
          with pm st out show ?thesis
            by (auto simp add: analyze_apis_def prog_defs split: if_splits)
        next
          case ag: (Inr u)
          show ?thesis
          proof (cases "path_exists w outfile'")
            case (Inl e)
            with pm st out ag show ?thesis
              by (auto simp add: analyze_apis_def prog_defs split: if_splits)
          next
            case pe: (Inr found)
            show ?thesis
            proof (cases found)
              case False
              with pm st out ag pe show ?thesis
                by (auto simp add: analyze_apis_def prog_defs split: if_splits)
            next
              case True
              show ?thesis
              proof (cases "parse_api_usage w pm_name outfile'")
                case (Inl e)
                with pm st out ag pe True show ?thesis
                  by (auto simp add: analyze_apis_def prog_defs split: if_splits)
              next
                case pa: (Inr perms')
                from h pm st out ag pe True pa
                have "\<not> truthy perms' \<or> raises (py_items perms')"
                  by (auto simp add: raises_iff)
                with pm st out ag pe True pa show ?thesis
                  by (auto simp add: analyze_apis_def prog_defs raises_iff split: if_splits)
              qed
            qed
          qed
        qed
      qed
    qed
  qed
qed

lemma tag_alerts_Cons:
  "tag_alerts ((p, usage) # items) =
     (case classify_usage p of None \<Rightarrow> tag_alerts items | Some found \<Rightarrow> found # tag_alerts items)"
  by (simp add: tag_alerts_def map_filter_simps split: option.splits)

lemma usage_loop_failure:
  "usage_loop threat_model items reason report_data s = (Raise e, u) \<Longrightarrow>
   \<exists>n. 0 < n \<and> n \<le> length items \<and>
       u = s\<lparr>cur_risks := record_all threat_model (tag_alerts (take n items)) (cur_risks s)\<rparr>"
proof (induction items arbitrary: reason report_data s)
  case Nil
  then show ?case
    by (simp add: ret_def)
next
  case (Cons item items)
  obtain p usage where item: "item = (p, usage)"
    by (cases item)
  obtain a r where c: "classify_usage p = Some (a, r)"
    using classify_usage_total by blast
  define s1 where "s1 = s\<lparr>cur_risks := alert_user a threat_model r (cur_risks s)\<rparr>"
  show ?case
  proof (cases "add_usage report_data r usage")
    case (Inl e')
    with Cons.prems c have "u = s1"
      by (simp add: item prog_defs s1_def)
    then show ?thesis
      by (intro exI [of _ 1]) (simp add: item tag_alerts_Cons c record_all_def s1_def tag_alerts_def)
  next
    case (Inr data1)
    with Cons.prems c have "usage_loop threat_model items (Some r) data1 s1 = (Raise e, u)"
      by (simp add: item prog_defs s1_def)
    from Cons.IH [OF this] obtain n where n: "0 < n" "n \<le> length items"
      "u = s1\<lparr>cur_risks := record_all threat_model (tag_alerts (take n items)) (cur_risks s1)\<rparr>"
      by blast
    then show ?thesis
      by (intro exI [of _ "Suc n"]) (simp add: item tag_alerts_Cons c record_all_def s1_def)
  qed
qed

lemma apis_fails_in_loop:
  "((pm_name = ''pypi'' \<or> pm_name = ''npm'') \<and>
    get_static_proxy_for_language w (if pm_name = ''pypi'' then python else javascript) = Inr static \<and>
    py_add_str filepath ''.out'' = Inr outfile \<and>
    astgen static filepath outfile
           (if pm_name = ''pypi'' then ''config/astgen_python_smt.config''
            else ''config/astgen_javascript_smt.config'') pkg_name ver_str = Inr () \<and>
    path_exists w outfile = Inr True \<and>
    parse_api_usage w pm_name outfile = Inr perms \<and> truthy perms \<and>
    py_items perms = Inr items \<and>
    (\<exists>e. fst (usage_loop threat_model items None []
                (s\<lparr>stdout := stdout s @ [''[+] Analyzing APIs...'']\<rparr>)) = Raise e) \<longrightarrow>
    (\<exists>n. 0 < n \<and> n \<le> length items \<and>
       fst (analyze_apis w threat_model pm_name pkg_name ver_str filepath s) =
         Ok (record_all threat_model (tag_alerts (take n items)) (cur_risks s), cur_report s)))"
proof
  assume a: "(pm_name = ''pypi'' \<or> pm_name = ''npm'') \<and>
    get_static_proxy_for_language w (if pm_name = ''pypi'' then python else javascript) = Inr static \<and>
    py_add_str filepath ''.out'' = Inr outfile \<and>
    astgen static filepath outfile
           (if pm_name = ''pypi'' then ''config/astgen_python_smt.config''
            else ''config/astgen_javascript_smt.config'') pkg_name ver_str = Inr () \<and>
    path_exists w outfile = Inr True \<and>
    parse_api_usage w pm_name outfile = Inr perms \<and> truthy perms \<and>
    py_items perms = Inr items \<and>
    (\<exists>e. fst (usage_loop threat_model items None []
                (s\<lparr>stdout := stdout s @ [''[+] Analyzing APIs...'']\<rparr>)) = Raise e)"
  define s0 where "s0 = s\<lparr>stdout := stdout s @ [''[+] Analyzing APIs...'']\<rparr>"
  from a obtain e u where l: "usage_loop threat_model items None [] s0 = (Raise e, u)"
    unfolding s0_def by (metis prod.collapse)
  from usage_loop_failure [OF l] obtain n where n: "0 < n" "n \<le> length items"
    "u = s0\<lparr>cur_risks := record_all threat_model (tag_alerts (take n items)) (cur_risks s0)\<rparr>"
    by blast
  have "fst (analyze_apis w threat_model pm_name pkg_name ver_str filepath s) =
         Ok (cur_risks u, cur_report u)"
    using a l by (auto simp add: analyze_apis_def prog_defs s0_def split: if_splits)
  with n show "\<exists>n. 0 < n \<and> n \<le> length items \<and>
       fst (analyze_apis w threat_model pm_name pkg_name ver_str filepath s) =
         Ok (record_all threat_model (tag_alerts (take n items)) (cur_risks s), cur_report s)"
    by (intro exI [of _ n]) (simp add: s0_def)
qed

lemma analyze_metadata_returns:
  "\<exists>t. analyze_metadata w threat_model pm_name pm_proxy pkg_name ver_str pkg_info ver_info s =
         (Ok (), t)"
  using analyze_metadata_effect [of w threat_model pm_name pm_proxy pkg_name ver_str pkg_info ver_info s]
  by blast

text \<open>
  C8, as stated, at a registry whose author record has a name and no email, and a
  history of the releases \<open>0.9\<close> and \<open>1.0\<close> asked for the release \<open>2.0\<close>. In
  \<^verbatim>\<open>analyze_author\<close> the operation \<^verbatim>\<open>author_info['email']\<close> raises \<^verbatim>\<open>KeyError\<close>; the
  stage goes on, and after the failure it records the alert \<open>no email\<close> and writes the
  section \<open>author\<close>. In \<^verbatim>\<open>analyze_release_history\<close> the operation
  \<^verbatim>\<open>release_history[ver_str]\<close> raises \<^verbatim>\<open>KeyError\<close>; the stage prints the key, goes on,
  and after the failure writes the section \<open>releases\<close>. Neither call returns the risks
  and the report as they were when the operation raised.
\<close>

theorem caught_failure_goes_on_counterexample:
  "subscript (PDict [(''name'', PStr ''dev'')]) (PStr ''email'') = Inl (KeyError (quoted ''email'')) \<and>
   cur_risks start = [] \<and> cur_report start = [] \<and>
   analyze_author flaky_world flaky_proxy full_threat_model
       (PStr ''pkg'') (PStr ''1.0'') PNone PNone start =
     (Ok ([(''undesirable'', [''invalid or no author email (2FA not enabled): no email''])],
          [(''author'', PDict [(''name'', PStr ''dev'')])]),
      start\<lparr>stdout := [''[+] Checking author...'', ''OK [None]''],
            cur_risks := [(''undesirable'', [''invalid or no author email (2FA not enabled): no email''])],
            cur_report := [(''author'', PDict [(''name'', PStr ''dev'')])]\<rparr>) \<and>
   subscript (PDict two_releases) (PStr ''2.0'') = Inl (KeyError (quoted ''2.0'')) \<and>
   analyze_release_history flaky_proxy full_threat_model (PStr ''pkg'') (PStr ''2.0'') PNone start =
     (Ok ([], [(''releases'', PDict two_releases)]),
      start\<lparr>stdout := [''[+] Checking release history...'', quoted ''2.0'',
                         ''OK [2 versions]''],
            cur_report := [(''releases'', PDict two_releases)]\<rparr>)"
  by (simp add: analyze_author_def analyze_release_history_def prog_defs subscript_def
        flaky_world_def flaky_proxy_def full_threat_model_def sample_defs two_releases_def
        alert_user_def repr_str_def repr_char_def string_of_int_def string_of_nat.simps
        digit_char_def quoted_def py_gt_def py_lt_def Let_def)

text \<open>
  C8, amended. A call of a stage function returns the pair of the risks and the report
  whatever its statements and the collaborators do, and does not raise; of what was
  there before the call it keeps every alert, and the report, to which it adds at most
  its own section. So the eight metadata stages all run, whatever fails in them. When
  a statement raises outside the two inner \<^verbatim>\<open>try\<close> blocks, the pair returned holds
  the alerts recorded before that statement, nothing recorded after it, and the report
  as it was before the call:

   \<^item> \<^verbatim>\<open>analyze_version\<close>: no alert when the version info is empty, the entry
     \<open>uploaded\<close> cannot be read, \<^verbatim>\<open>datetime_delta\<close> raises or the comparison with 365
     raises; the alert \<open>no release date\<close> when the final \<^verbatim>\<open>print\<close> cannot format the
     number of days;
   \<^item> \<^verbatim>\<open>analyze_release_history\<close>: no alert when the registry raises, the history is
     empty or has no length;
   \<^item> \<^verbatim>\<open>analyze_author\<close>: no alert when the registry raises, the author record is
     empty, reading \<open>email\<close> raises something other than \<^verbatim>\<open>KeyError\<close>, or the check
     of the address raises;
   \<^item> \<^verbatim>\<open>analyze_readme\<close>: no alert when the registry raises or a non-empty
     description has no length; the alert \<open>no description\<close> when an empty description
     has no length;
   \<^item> \<^verbatim>\<open>analyze_homepage\<close>: no alert when the registry raises; the alert
     \<open>no homepage\<close>, if the address is empty, when parsing raises; that alert and the
     alert \<open>insecure webpage\<close>, if the scheme is not https, when a probe raises;
   \<^item> \<^verbatim>\<open>analyze_downloads\<close>: no alert when the registry or the comparison with 1000
     raises; the alert \<open>few downloads\<close>, if the count is below 1000, when
     \<^verbatim>\<open>human_format\<close> raises;
   \<^item> \<^verbatim>\<open>analyze_repo\<close>, \<^verbatim>\<open>analyze_cves\<close>: no alert, whichever call raises;
   \<^item> \<^verbatim>\<open>analyze_apis\<close>: no alert when anything before the loop fails; when the loop
     raises, the alerts of the first \<open>n\<close> tags of the usage record, in their order,
     for some \<open>n\<close> between 1 and the number of tags.

  A failure inside an inner \<^verbatim>\<open>try\<close> block does not end the stage: when the gap check
  of \<^verbatim>\<open>analyze_release_history\<close> raises, the stage goes on and writes the section
  \<open>releases\<close>; when the author record has no key \<open>email\<close>, \<^verbatim>\<open>analyze_author\<close> goes
  on with \<^verbatim>\<open>email = None\<close>, records the alert \<open>no email\<close> if the address is not
  valid, and writes the section \<open>author\<close>.
\<close>

theorem stage_failure_keeps_committed_alerts:
  "(\<exists>t. run_call w pm_proxy threat_model call s = (Ok (cur_risks t, cur_report t), t) \<and>
         stage_effect (fn_of call) s t) \<and>
   (\<exists>t. analyze_metadata w threat_model pm_name pm_proxy pkg_name ver_str pkg_info ver_info s =
          (Ok (), t)) \<and>
   ((\<not> truthy ver_info \<or>
    raises (subscript ver_info (PStr ''uploaded'')) \<or>
    (subscript ver_info (PStr ''uploaded'') = Inr uploaded \<and>
     (raises (datetime_delta w uploaded) \<or>
      (datetime_delta w uploaded = Inr days \<and> truthy uploaded \<and> raises (py_gt days 365)))) \<longrightarrow>
    fst (analyze_version w threat_model ver_info s) = Ok (cur_risks s, cur_report s))) \<and>
   ((subscript ver_info (PStr ''uploaded'') = Inr uploaded \<and>
    datetime_delta w uploaded = Inr days \<and> \<not> truthy uploaded \<and> raises (fmt_d days) \<longrightarrow>
    fst (analyze_version w threat_model ver_info s) =
      Ok (alert_user ''old package'' threat_model ''no release date'' (cur_risks s), cur_report s))) \<and>
   ((raises (get_release_history pm_proxy pkg_name pkg_info) \<or>
    (get_release_history pm_proxy pkg_name pkg_info = Inr history \<and> (\<not> truthy history \<or> raises (py_len history))) \<longrightarrow>
    fst (analyze_release_history pm_proxy threat_model pkg_name ver_str pkg_info s) = Ok (cur_risks s, cur_report s))) \<and>
   ((get_release_history pm_proxy pkg_name pkg_info = Inr history \<and> truthy history \<and>
    py_len history = Inr n \<and> 2 \<le> n \<and>
    (raises (subscript history ver_str) \<or>
     (subscript history ver_str = Inr release \<and>
      (raises (subscript release (PStr ''days_since_last_release'')) \<or>
       (subscript release (PStr ''days_since_last_release'') = Inr days \<and> truthy days \<and>
        raises (py_gt days 180))))) \<longrightarrow>
    fst (analyze_release_history pm_proxy threat_model pkg_name ver_str pkg_info s) =
      Ok (cur_risks s, AList.update ''releases'' history (cur_report s)))) \<and>
   ((raises (get_author pm_proxy pkg_name ver_str pkg_info ver_info) \<or>
    (get_author pm_proxy pkg_name ver_str pkg_info ver_info = Inr author_info \<and>
     (\<not> truthy author_info \<or>
      (\<exists>e. subscript author_info (PStr ''email'') = Inl e \<and> \<not> is_KeyError e) \<or>
      (subscript author_info (PStr ''email'') = Inr email \<and>
       raises (check_email_address w email)) \<or>
      ((\<exists>e. subscript author_info (PStr ''email'') = Inl e \<and> is_KeyError e) \<and>
       raises (check_email_address w PNone)))) \<longrightarrow>
    fst (analyze_author w pm_proxy threat_model pkg_name ver_str pkg_info ver_info s) = Ok (cur_risks s, cur_report s))) \<and>
   ((get_author pm_proxy pkg_name ver_str pkg_info ver_info = Inr author_info \<and> truthy author_info \<and>
    (\<exists>e. subscript author_info (PStr ''email'') = Inl e \<and> is_KeyError e) \<and>
    check_email_address w PNone = Inr (valid, valid_with_dns) \<and>
    (\<not> truthy valid \<or> \<not> truthy valid_with_dns) \<longrightarrow>
    fst (analyze_author w pm_proxy threat_model pkg_name ver_str pkg_info ver_info s) =
      Ok (alert_user ''invalid or no author email (2FA not enabled)'' threat_model ''no email''
            (cur_risks s),
          AList.update ''author'' author_info (cur_report s)))) \<and>
   ((raises (get_description pm_proxy pkg_name ver_str pkg_info) \<or>
    (get_description pm_proxy pkg_name ver_str pkg_info = Inr descr \<and> truthy descr \<and> raises (py_len descr)) \<longrightarrow>
    fst (analyze_readme pm_proxy threat_model pkg_name ver_str pkg_info s) = Ok (cur_risks s, cur_report s))) \<and>
   ((get_description pm_proxy pkg_name ver_str pkg_info = Inr descr \<and> \<not> truthy descr \<and> raises (py_len descr) \<longrightarrow>
    fst (analyze_readme pm_proxy threat_model pkg_name ver_str pkg_info s) =
      Ok (alert_user ''no or insufficient readme'' threat_model ''no description'' (cur_risks s),
          cur_report s))) \<and>
   ((raises (get_homepage pm_proxy pkg_name ver_str pkg_info) \<longrightarrow>
    fst (analyze_homepage w pm_proxy threat_model pkg_name ver_str pkg_info s) = Ok (cur_risks s, cur_report s))) \<and>
   ((get_homepage pm_proxy pkg_name ver_str pkg_info = Inr url \<and> raises (parse_url w url) \<longrightarrow>
    fst (analyze_homepage w pm_proxy threat_model pkg_name ver_str pkg_info s) =
      Ok (if \<not> truthy url then alert_user ''invalid or no homepage'' threat_model ''no homepage'' (cur_risks s)
          else cur_risks s,
          cur_report s))) \<and>
   ((get_homepage pm_proxy pkg_name ver_str pkg_info = Inr url \<and> parse_url w url = Inr parsed \<and>
    (raises (check_site_exist w url) \<or>
     (check_site_exist w url = Inr (valid_site, reason) \<and> truthy valid_site \<and>
      raises (check_domain_popular w url))) \<longrightarrow>
    fst (analyze_homepage w pm_proxy threat_model pkg_name ver_str pkg_info s) =
      Ok ((if scheme parsed \<noteq> ''https''
           then alert_user ''invalid or no homepage'' threat_model ''insecure webpage''
           else id)
            (if \<not> truthy url then alert_user ''invalid or no homepage'' threat_model ''no homepage'' (cur_risks s)
             else cur_risks s),
          cur_report s))) \<and>
   ((raises (get_downloads pm_proxy pkg_name) \<or>
    (get_downloads pm_proxy pkg_name = Inr downloads \<and> raises (py_lt downloads 1000)) \<longrightarrow>
    fst (analyze_downloads w pm_proxy threat_model pkg_name s) = Ok (cur_risks s, cur_report s))) \<and>
   ((get_downloads pm_proxy pkg_name = Inr downloads \<and> py_lt downloads 1000 = Inr few \<and>
    fmt_d downloads = Inr shown \<and> raises (human_format w downloads) \<longrightarrow>
    fst (analyze_downloads w pm_proxy threat_model pkg_name s) =
      Ok (if few
          then alert_user ''few downloads'' threat_model (''only '' @ shown @ '' weekly downloads'')
                 (cur_risks s)
          else cur_risks s,
          cur_report s))) \<and>
   ((raises (get_repo pm_proxy pkg_name ver_str pkg_info ver_info) \<or>
    (get_repo pm_proxy pkg_name ver_str pkg_info ver_info = Inr repo \<and> truthy repo \<and> raises (startswith repo popular_hosting_services)) \<or>
    (get_repo pm_proxy pkg_name ver_str pkg_info ver_info = Inr repo \<and> \<not> truthy repo \<and>
     (raises (get_homepage pm_proxy pkg_name ver_str pkg_info) \<or>
      (get_homepage pm_proxy pkg_name ver_str pkg_info = Inr homepage \<and> truthy homepage \<and> raises (startswith homepage popular_hosting_services)) \<or>
      (get_homepage pm_proxy pkg_name ver_str pkg_info = Inr homepage \<and>
       (\<not> truthy homepage \<or> startswith homepage popular_hosting_services = Inr False) \<and>
       (raises (get_download_url pm_proxy pkg_name ver_str pkg_info) \<or>
        (get_download_url pm_proxy pkg_name ver_str pkg_info = Inr download_url \<and> truthy download_url \<and>
         raises (startswith download_url popular_hosting_services)))))) \<longrightarrow>
    fst (analyze_repo pm_proxy threat_model pkg_name ver_str pkg_info ver_info s) = Ok (cur_risks s, cur_report s))) \<and>
   ((raises (get_pkgver_vulns w pm_name pkg_name ver_str) \<or>
    (get_pkgver_vulns w pm_name pkg_name ver_str = Inr vuln_list \<and> truthy vuln_list \<and> raises (vuln_ids vuln_list)) \<longrightarrow>
    fst (analyze_cves w threat_model pm_name pkg_name ver_str s) = Ok (cur_risks s, cur_report s))) \<and>
   (((pm_name \<noteq> ''pypi'' \<and> pm_name \<noteq> ''npm'') \<or>
    ((pm_name = ''pypi'' \<or> pm_name = ''npm'') \<and>
     (raises (get_static_proxy_for_language w (if pm_name = ''pypi'' then python else javascript)) \<or>
      (get_static_proxy_for_language w (if pm_name = ''pypi'' then python else javascript) = Inr static \<and>
       (raises (py_add_str filepath ''.out'') \<or>
        (py_add_str filepath ''.out'' = Inr outfile \<and>
         (raises (astgen static filepath outfile
           (if pm_name = ''pypi'' then ''config/astgen_python_smt.config''
            else ''config/astgen_javascript_smt.config'') pkg_name ver_str) \<or>
          (astgen static filepath outfile
           (if pm_name = ''pypi'' then ''config/astgen_python_smt.config''
            else ''config/astgen_javascript_smt.config'') pkg_name ver_str = Inr () \<and>
           (raises (path_exists w outfile) \<or> path_exists w outfile = Inr False \<or>
            (path_exists w outfile = Inr True \<and>
             (raises (parse_api_usage w pm_name outfile) \<or>
              (parse_api_usage w pm_name outfile = Inr perms \<and>
               (\<not> truthy perms \<or> raises (py_items perms))))))))))))) \<longrightarrow>
    fst (analyze_apis w threat_model pm_name pkg_name ver_str filepath s) = Ok (cur_risks s, cur_report s))) \<and>
   (((pm_name = ''pypi'' \<or> pm_name = ''npm'') \<and>
    get_static_proxy_for_language w (if pm_name = ''pypi'' then python else javascript) = Inr static \<and>
    py_add_str filepath ''.out'' = Inr outfile \<and>
    astgen static filepath outfile
           (if pm_name = ''pypi'' then ''config/astgen_python_smt.config''
            else ''config/astgen_javascript_smt.config'') pkg_name ver_str = Inr () \<and>
    path_exists w outfile = Inr True \<and>
    parse_api_usage w pm_name outfile = Inr perms \<and> truthy perms \<and>
    py_items perms = Inr items \<and>
    (\<exists>e. fst (usage_loop threat_model items None []
                (s\<lparr>stdout := stdout s @ [''[+] Analyzing APIs...'']\<rparr>)) = Raise e) \<longrightarrow>
    (\<exists>n. 0 < n \<and> n \<le> length items \<and>
       fst (analyze_apis w threat_model pm_name pkg_name ver_str filepath s) =
         Ok (record_all threat_model (tag_alerts (take n items)) (cur_risks s), cur_report s))))"
  by (intro conjI run_call_effect analyze_metadata_returns
        version_fails_early version_fails_late release_history_fails release_history_goes_on
        author_fails author_goes_on readme_fails_early readme_fails_late
        homepage_fails_first homepage_fails_parsing homepage_fails_probing downloads_fails_early
        downloads_fails_late repo_fails cves_fails apis_fails_early
        apis_fails_in_loop)

text \<open>
  The theorem at three sets of collaborators. When everything is down, every stage
  returns the empty risks and the empty report that it was given. When the
  collaborators fail late, each stage returns the alert that it recorded before the
  failure, and the report is written only where the failure was caught inside the
  stage. When the homepage is missing and parsing raises, the alert \<open>no homepage\<close> is
  kept.
\<close>

theorem stage_failure_keeps_committed_alerts_witness:
  "\<not> truthy PNone \<and>
   raises (get_release_history down_proxy (PStr ''pkg'') PNone) \<and>
   raises (get_author down_proxy (PStr ''pkg'') (PStr ''1.0'') PNone PNone) \<and>
   raises (get_description down_proxy (PStr ''pkg'') (PStr ''1.0'') PNone) \<and>
   raises (get_homepage down_proxy (PStr ''pkg'') (PStr ''1.0'') PNone) \<and>
   raises (get_downloads down_proxy (PStr ''pkg'')) \<and>
   raises (get_repo down_proxy (PStr ''pkg'') (PStr ''1.0'') PNone PNone) \<and>
   raises (get_pkgver_vulns down_world ''pypi'' (PStr ''pkg'') (PStr ''1.0'')) \<and>
   raises (get_static_proxy_for_language down_world python) \<and>
   fst (analyze_version down_world full_threat_model PNone start) = Ok ([], []) \<and>
   fst (analyze_release_history down_proxy full_threat_model (PStr ''pkg'') (PStr ''1.0'') PNone start) =
     Ok ([], []) \<and>
   fst (analyze_author down_world down_proxy full_threat_model (PStr ''pkg'') (PStr ''1.0'') PNone PNone
          start) = Ok ([], []) \<and>
   fst (analyze_readme down_proxy full_threat_model (PStr ''pkg'') (PStr ''1.0'') PNone start) =
     Ok ([], []) \<and>
   fst (analyze_homepage down_world down_proxy full_threat_model (PStr ''pkg'') (PStr ''1.0'') PNone
          start) = Ok ([], []) \<and>
   fst (analyze_downloads down_world down_proxy full_threat_model (PStr ''pkg'') start) = Ok ([], []) \<and>
   fst (analyze_repo down_proxy full_threat_model (PStr ''pkg'') (PStr ''1.0'') PNone PNone start) =
     Ok ([], []) \<and>
   fst (analyze_cves down_world full_threat_model ''pypi'' (PStr ''pkg'') (PStr ''1.0'') start) =
     Ok ([], []) \<and>
   fst (analyze_apis down_world full_threat_model ''pypi'' (PStr ''pkg'') (PStr ''1.0'')
          (PStr ''/tmp/pkg-1.0.tar.gz'') start) = Ok ([], []) \<and>
   raises (fmt_d PNone) \<and>
   fst (analyze_version flaky_world full_threat_model (PDict [(''uploaded'', PNone)]) start) =
     Ok ([(''undesirable'', [''old package: no release date''])], []) \<and>
   raises (subscript (PDict two_releases) (PStr ''2.0'')) \<and>
   fst (analyze_release_history flaky_proxy full_threat_model (PStr ''pkg'') (PStr ''2.0'') PNone start) =
     Ok ([], [(''releases'', PDict two_releases)]) \<and>
   raises (subscript (PDict [(''name'', PStr ''dev'')]) (PStr ''email'')) \<and>
   fst (analyze_author flaky_world flaky_proxy full_threat_model (PStr ''pkg'') (PStr ''2.0'') PNone
          (PDict [(''uploaded'', PNone)]) start) =
     Ok ([(''undesirable'', [''invalid or no author email (2FA not enabled): no email''])],
         [(''author'', PDict [(''name'', PStr ''dev'')])]) \<and>
   raises (py_len PNone) \<and>
   fst (analyze_readme flaky_proxy full_threat_model (PStr ''pkg'') (PStr ''2.0'') PNone start) =
     Ok ([(''undesirable'', [''no or insufficient readme: no description''])], []) \<and>
   raises (check_site_exist flaky_world (PStr ''http://example.org'')) \<and>
   fst (analyze_homepage flaky_world flaky_proxy full_threat_model (PStr ''pkg'') (PStr ''2.0'') PNone
          start) =
     Ok ([(''undesirable'', [''invalid or no homepage: insecure webpage''])], []) \<and>
   raises (human_format flaky_world (PInt 5)) \<and>
   fst (analyze_downloads flaky_world flaky_proxy full_threat_model (PStr ''pkg'') start) =
     Ok ([(''undesirable'', [''few downloads: only 5 weekly downloads''])], []) \<and>
   fst (usage_loop full_threat_model flaky_perms None []
          (start\<lparr>stdout := stdout start @ [''[+] Analyzing APIs...'']\<rparr>)) =
     Raise (TypeError (quoted ''int'' @ '' object is not iterable'')) \<and>
   fst (analyze_apis flaky_world full_threat_model ''pypi'' (PStr ''pkg'') (PStr ''2.0'')
          (PStr ''/tmp/pkg-1.0.tar.gz'') start) =
     Ok ([(''malicious'',
          [''generates new code at runtime: spawns new processes in background'',
           ''generates new code at runtime: spawns new processes in background''])], []) \<and>
   raises (parse_url (sample_world\<lparr>parse_url := (\<lambda>url. Inl (ValueError ''Invalid URL''))\<rparr>) PNone) \<and>
   fst (analyze_homepage (sample_world\<lparr>parse_url := (\<lambda>url. Inl (ValueError ''Invalid URL''))\<rparr>)
          (sample_proxy\<lparr>get_homepage := (\<lambda>pkg_name ver_str pkg_info. Inr PNone)\<rparr>)
          full_threat_model (PStr ''pkg'') (PStr ''1.0'') PNone start) =
     Ok ([(''undesirable'', [''invalid or no homepage: no homepage''])], [])"
  using stage_failure_keeps_committed_alerts [where
          w = down_world and pm_proxy = down_proxy and threat_model = full_threat_model
          and call = "DownloadsCall (PStr ''pkg'')" and s = start and pm_name = "''pypi''"
          and pkg_name = "PStr ''pkg''" and ver_str = "PStr ''1.0''" and pkg_info = PNone
          and ver_info = PNone and filepath = "PStr ''/tmp/pkg-1.0.tar.gz''"
          and uploaded = PNone and days = PNone and history = PNone and n = 0 and release = PNone
          and author_info = PNone and email = PNone and valid = PNone and valid_with_dns = PNone
          and descr = PNone and url = PNone and parsed = "ParsedUrl ''http''"
          and valid_site = PNone and reason = PNone and downloads = PNone and few = False
          and shown = "''''" and repo = PNone and homepage = PNone and download_url = PNone
          and vuln_list = PNone
          and static = "StaticProxy (\<lambda>inpath outfile configpath pkg_name pkg_version. Inr ())"
          and outfile = PNone and perms = PNone and items = "[]"]
        stage_failure_keeps_committed_alerts [where
          w = flaky_world and pm_proxy = flaky_proxy and threat_model = full_threat_model
          and call = "DownloadsCall (PStr ''pkg'')" and s = start and pm_name = "''pypi''"
          and pkg_name = "PStr ''pkg''" and ver_str = "PStr ''2.0''" and pkg_info = PNone
          and ver_info = "PDict [(''uploaded'', PNone)]" and filepath = "PStr ''/tmp/pkg-1.0.tar.gz''"
          and uploaded = PNone and days = PNone and history = "PDict two_releases" and n = 2
          and release = PNone
          and author_info = "PDict [(''name'', PStr ''dev'')]" and email = PNone
          and valid = "PBool False" and valid_with_dns = "PBool False"
          and descr = PNone and url = "PStr ''http://example.org''" and parsed = "ParsedUrl ''http''"
          and valid_site = PNone and reason = PNone and downloads = "PInt 5" and few = True
          and shown = "''5''" and repo = PNone and homepage = PNone and download_url = PNone
          and vuln_list = PNone
          and static = "StaticProxy (\<lambda>inpath outfile configpath pkg_name pkg_version. Inr ())"
          and outfile = "PStr ''/tmp/pkg-1.0.tar.gz.out''" and perms = "PDict flaky_perms"
          and items = flaky_perms]
        stage_failure_keeps_committed_alerts [where
          w = "sample_world\<lparr>parse_url := (\<lambda>url. Inl (ValueError ''Invalid URL''))\<rparr>"
          and pm_proxy = "sample_proxy\<lparr>get_homepage := (\<lambda>pkg_name ver_str pkg_info. Inr PNone)\<rparr>"
          and threat_model = full_threat_model
          and call = "DownloadsCall (PStr ''pkg'')" and s = start and pm_name = "''pypi''"
          and pkg_name = "PStr ''pkg''" and ver_str = "PStr ''1.0''" and pkg_info = PNone
          and ver_info = PNone and filepath = "PStr ''/tmp/pkg-1.0.tar.gz''"
          and uploaded = PNone and days = PNone and history = PNone and n = 0 and release = PNone
          and author_info = PNone and email = PNone and valid = PNone and valid_with_dns = PNone
          and descr = PNone and url = PNone and parsed = "ParsedUrl ''http''"
          and valid_site = PNone and reason = PNone and downloads = PNone and few = False
          and shown = "''''" and repo = PNone and homepage = PNone and download_url = PNone
          and vuln_list = PNone
          and static = "StaticProxy (\<lambda>inpath outfile configpath pkg_name pkg_version. Inr ())"
          and outfile = PNone and perms = PNone and items = "[]"]
  by (simp add: raises_def analyze_version_def analyze_release_history_def analyze_author_def
        analyze_readme_def analyze_homepage_def analyze_downloads_def analyze_repo_def
        analyze_cves_def analyze_apis_def prog_defs subscript_def
        down_world_def down_proxy_def flaky_world_def flaky_proxy_def flaky_perms_def
        full_threat_model_def sample_defs two_releases_def alert_user_def
        repr_str_def repr_char_def string_of_int_def string_of_nat.simps digit_char_def
        quoted_def py_gt_def py_lt_def py_add_str_def py_items_def classify_usage_def
        add_usage_def py_iadd_def not_addable_def)

end
